theory Spec2Isabelle
  imports Complex_Main "HOL-Library.Monad_Syntax"
begin

section \<open>JavaScript values\<close>

text \<open>
  A JavaScript \<^verbatim>\<open>number\<close> is a real number or \<^verbatim>\<open>NaN\<close> (the infinities and the rounding
  of a double are left out: no operation modelled here produces them from the values it is
  given). A string is a list of characters; a thrown \<^verbatim>\<open>Error\<close> is a value carrying its
  message.
\<close>

datatype number = NaN | Num real

datatype error = Error string

datatype console_msg = Log string | ErrorMsg string

subsection \<open>String operations\<close>

text \<open>
  The character class \<^verbatim>\<open>[0-9a-f]\<close> under the flag \<^verbatim>\<open>i\<close>, by character code. In a
  regular expression without the flag \<^verbatim>\<open>u\<close> no character beyond ASCII matches this
  class, so the bytes of a UTF-8 string decide the match as the code units do.
\<close>

definition is_hex_digit :: "char \<Rightarrow> bool" where
  "is_hex_digit c =
     (let n = (of_char c :: nat)
      in (48 \<le> n \<and> n \<le> 57) \<or> (97 \<le> n \<and> n \<le> 102) \<or> (65 \<le> n \<and> n \<le> 70))"

text \<open>
  \<^verbatim>\<open>str.match(/^#([0-9a-f]{6})$/i)?.[1]\<close>: the first group of the match, or
  \<^verbatim>\<open>undefined\<close> (here \<open>None\<close>) when the string does not match. Without the flag
  \<^verbatim>\<open>m\<close> the anchors are the two ends of the string.
\<close>

definition match_sharp_hex6 :: "string \<Rightarrow> string option" where
  "match_sharp_hex6 str =
     (case str of
        [] \<Rightarrow> None
      | c # rest \<Rightarrow>
          if c = CHR ''#'' \<and> length rest = 6 \<and> list_all is_hex_digit rest
          then Some rest else None)"

text \<open>\<^verbatim>\<open>str.substring(start, end)\<close>: both indices are clamped to the length and ordered.\<close>

definition substring :: "string \<Rightarrow> nat \<Rightarrow> nat \<Rightarrow> string" where
  "substring str start end' =
     (let s = min start (length str); e = min end' (length str);
          lo = min s e; hi = max s e
      in take (hi - lo) (drop lo str))"

text \<open>
  \<^verbatim>\<open>parseInt(str, 16)\<close>: leading white space is skipped (here the white space of ASCII),
  then an optional sign, then an optional prefix \<^verbatim>\<open>0x\<close> or \<^verbatim>\<open>0X\<close>; the longest run of
  hexadecimal digits that follows is the value, and \<^verbatim>\<open>NaN\<close> is returned when that run is
  empty. \<open>digit_value\<close> is the value of a hexadecimal digit; it is applied to such digits
  only.
\<close>

definition is_white_space :: "char \<Rightarrow> bool" where
  "is_white_space c = ((of_char c :: nat) \<in> {9, 10, 11, 12, 13, 32})"

definition digit_value :: "char \<Rightarrow> nat" where
  "digit_value c =
     (let n = (of_char c :: nat)
      in if 48 \<le> n \<and> n \<le> 57 then n - 48
         else if 97 \<le> n \<and> n \<le> 102 then n - 87
         else n - 55)"

definition parseInt16 :: "string \<Rightarrow> number" where
  "parseInt16 str =
     (let s1 = dropWhile is_white_space str;
          sign = (if take 1 s1 = ''-'' then - 1 else (1::int));
          s2 = (if take 1 s1 = ''-'' \<or> take 1 s1 = ''+'' then drop 1 s1 else s1);
          s3 = (if take 2 s2 = ''0x'' \<or> take 2 s2 = ''0X'' then drop 2 s2 else s2);
          ds = takeWhile is_hex_digit s3
      in if ds = [] then NaN
         else Num (of_int (sign * int (foldl (\<lambda>acc c. acc * 16 + digit_value c) 0 ds))))"

text \<open>Division of a number by the literal \<^verbatim>\<open>255\<close>.\<close>

definition div255 :: "number \<Rightarrow> number" where
  "div255 x = (case x of NaN \<Rightarrow> NaN | Num v \<Rightarrow> Num (v / 255))"

subsection \<open>\<^verbatim>\<open>hexColorToRGBPct\<close>\<close>

text \<open>
  The conditional \<^verbatim>\<open>noSharp ? noSharp.substring(i, j) : "0"\<close> tests the truthiness of
  \<^verbatim>\<open>noSharp\<close>: \<^verbatim>\<open>undefined\<close> and the empty string are falsy.
\<close>

definition substring_or_0 :: "string option \<Rightarrow> nat \<Rightarrow> nat \<Rightarrow> string" where
  "substring_or_0 noSharp i j =
     (case noSharp of
        None \<Rightarrow> ''0''
      | Some str \<Rightarrow> if str \<noteq> [] then substring str i j else ''0'')"

definition hexColorToRGBPct :: "string \<Rightarrow> number \<times> number \<times> number" where
  "hexColorToRGBPct sharpLeadingHex =
     (let noSharp = match_sharp_hex6 sharpLeadingHex
      in (div255 (parseInt16 (substring_or_0 noSharp 0 2)),
          div255 (parseInt16 (substring_or_0 noSharp 2 4)),
          div255 (parseInt16 (substring_or_0 noSharp 4 6))))"

subsection \<open>The configuration\<close>

record LiveTweakableParams =
  keycolor :: "number \<times> number \<times> number"
  similarity :: number
  smoothness :: number
  spill :: number

text \<open>
  The object \<^verbatim>\<open>defaultValues\<close> of \<^verbatim>\<open>getConfig\<close>: the key colour as a string and the
  three thresholds. \<open>config_of\<close> is the object that \<^verbatim>\<open>getConfig\<close> returns from it: the
  same thresholds, and the key colour converted by \<^verbatim>\<open>hexColorToRGBPct\<close>.
\<close>

datatype raw_config = RawConfig string number number number

definition defaultValues :: raw_config where
  "defaultValues = RawConfig ''#11ff05'' (Num 0.4) (Num 0.08) (Num 0.1)"

definition config_of :: "raw_config \<Rightarrow> LiveTweakableParams" where
  "config_of dv =
     (case dv of RawConfig kc sim sm sp \<Rightarrow>
        \<lparr>keycolor = hexColorToRGBPct kc, similarity = sim, smoothness = sm, spill = sp\<rparr>)"

definition getConfig :: "unit \<Rightarrow> LiveTweakableParams" where
  "getConfig u = config_of defaultValues"

section \<open>The WebGL context\<close>

text \<open>
  The calls that the program issues to the WebGL context are recorded in the order they are
  made. What the driver answers (whether an object is created, the compile and link status,
  the info log) is a parameter of the model.
\<close>

datatype shader_type = VERTEX_SHADER | FRAGMENT_SHADER

datatype uniform_loc =
  texLoc | texWidthLoc | texHeightLoc | keyColorLoc | similarityLoc | smoothnessLoc | spillLoc

datatype tex_param = TEXTURE_WRAP_S | TEXTURE_WRAP_T | TEXTURE_MIN_FILTER

datatype tex_value = CLAMP_TO_EDGE | LINEAR

datatype gl_call =
    ShaderSource shader_type
  | CompileShader shader_type
  | AttachShader shader_type
  | LinkProgram
  | UseProgram
  | BindBuffer
  | BufferData "int list"
  | VertexAttribPointer
  | EnableVertexAttribArray
  | ActiveTexture
  | BindTexture
  | TexParameteri tex_param tex_value
  | Viewport nat nat nat nat
  | TexImage2D nat nat
  | Uniform1i uniform_loc int
  | Uniform1f uniform_loc number
  | Uniform3f uniform_loc number number number
  | DrawArrays nat nat
  | DeleteProgram

record gl_driver =
  createShader_ok :: "shader_type \<Rightarrow> bool"
  compile_status :: "shader_type \<Rightarrow> bool"
  shader_info_log :: "shader_type \<Rightarrow> string"
  createProgram_ok :: bool
  link_status :: bool

text \<open>The program object that \<^verbatim>\<open>init\<close> returns, with the link status the driver holds for it.\<close>

datatype WebGLProgram = Program (linked: bool)

subsection \<open>\<^verbatim>\<open>init\<close>\<close>

text \<open>
  \<^verbatim>\<open>init\<close> throws when a shader object or the program object is not created. The compile
  status is read for the fragment shader only, and a failure is written to the console; the
  link status is never read. The result is the error thrown with the console output before
  it, or the program with the calls issued and the console output.
\<close>

definition init_calls :: "gl_call list" where
  "init_calls =
     [ShaderSource VERTEX_SHADER, CompileShader VERTEX_SHADER,
      ShaderSource FRAGMENT_SHADER, CompileShader FRAGMENT_SHADER,
      AttachShader VERTEX_SHADER, AttachShader FRAGMENT_SHADER, LinkProgram, UseProgram,
      BindBuffer, BufferData [- 1, 1, - 1, - 1, 1, - 1, 1, 1],
      VertexAttribPointer, EnableVertexAttribArray,
      ActiveTexture, BindTexture,
      TexParameteri TEXTURE_WRAP_S CLAMP_TO_EDGE, TexParameteri TEXTURE_WRAP_T CLAMP_TO_EDGE,
      TexParameteri TEXTURE_MIN_FILTER LINEAR]"

definition init ::
  "gl_driver \<Rightarrow> error \<times> console_msg list + WebGLProgram \<times> gl_call list \<times> console_msg list"
where
  "init d =
     (if \<not> createShader_ok d VERTEX_SHADER
      then Inl (Error ''Could not create VERTEX_SHADER'', [])
      else if \<not> createShader_ok d FRAGMENT_SHADER
      then Inl (Error ''Could not create FRAGMENT_SHADER'', [])
      else
        let out = (if \<not> compile_status d FRAGMENT_SHADER
                   then [ErrorMsg (shader_info_log d FRAGMENT_SHADER)] else [])
        in if \<not> createProgram_ok d
           then Inl (Error ''Could not create WebGL Program'', out)
           else Inr (Program (link_status d), init_calls, out))"

section \<open>The frame scheduler\<close>

text \<open>
  The state that the draw loop reads and writes: the object \<^verbatim>\<open>wgl\<close>, the native size of
  the video element, the size of the canvas, the calls issued to the WebGL context, the
  console, and the callbacks that are armed and have not fired yet. \<open>cycles\<close> counts the
  invocations of \<^verbatim>\<open>processFrame\<close>; the program does not hold it, it is there to state how
  often the function runs.
\<close>

datatype task = VideoFrameCallback | Timeout | AnimationFrame

record pipeline =
  stopped :: bool
  useRequestVideoFrameCallback :: bool
  requestVideoFrameCallbackIsAvailable :: bool
  prog :: WebGLProgram
  videoWidth :: nat
  videoHeight :: nat
  canvasWidth :: nat
  canvasHeight :: nat
  gl_calls :: "gl_call list"
  console :: "console_msg list"
  pending :: "task list"
  cycles :: nat

definition gl :: "pipeline \<Rightarrow> gl_call \<Rightarrow> pipeline" where
  "gl s c = s\<lparr>gl_calls := gl_calls s @ [c]\<rparr>"

definition arm :: "pipeline \<Rightarrow> task \<Rightarrow> pipeline" where
  "arm s t = s\<lparr>pending := pending s @ [t]\<rparr>"

definition console_log :: "pipeline \<Rightarrow> string \<Rightarrow> pipeline" where
  "console_log s m = s\<lparr>console := console s @ [Log m]\<rparr>"

subsection \<open>\<^verbatim>\<open>processFrame\<close>\<close>

definition viewport_sync :: "pipeline \<Rightarrow> pipeline" where
  "viewport_sync s =
     (if videoWidth s \<noteq> canvasWidth s
      then gl (s\<lparr>canvasWidth := videoWidth s, canvasHeight := videoHeight s\<rparr>)
              (Viewport 0 0 (videoWidth s) (videoHeight s))
      else s)"

definition upload_and_draw :: "(unit \<Rightarrow> LiveTweakableParams) \<Rightarrow> pipeline \<Rightarrow> pipeline" where
  "upload_and_draw getConfig' s =
     (let s = gl s (TexImage2D (videoWidth s) (videoHeight s));
          s = gl s (Uniform1i texLoc 0);
          s = gl s (Uniform1f texWidthLoc (Num (real (videoWidth s))));
          s = gl s (Uniform1f texHeightLoc (Num (real (videoHeight s))));
          config = getConfig' ();
          s = gl s (Uniform3f keyColorLoc (fst (keycolor config)) (fst (snd (keycolor config)))
                      (snd (snd (keycolor config))));
          s = gl s (Uniform1f similarityLoc (similarity config));
          s = gl s (Uniform1f smoothnessLoc (smoothness config));
          s = gl s (Uniform1f spillLoc (spill config))
      in gl s (DrawArrays 0 4))"

definition arm_next :: "pipeline \<Rightarrow> pipeline" where
  "arm_next s =
     (if useRequestVideoFrameCallback s \<and> requestVideoFrameCallbackIsAvailable s
      then arm s VideoFrameCallback
      else arm s Timeout)"

definition processFrame :: "(unit \<Rightarrow> LiveTweakableParams) \<Rightarrow> pipeline \<Rightarrow> pipeline" where
  "processFrame getConfig' s0 =
     (let s = s0\<lparr>cycles := cycles s0 + 1\<rparr>
      in if stopped s then s
         else
           let s = viewport_sync s;
               s = upload_and_draw getConfig' s
           in if stopped s then s else arm_next s)"

definition startProcessing :: "(unit \<Rightarrow> LiveTweakableParams) \<Rightarrow> pipeline \<Rightarrow> pipeline" where
  "startProcessing getConfig' s = processFrame getConfig' s"

subsection \<open>\<^verbatim>\<open>start\<close>, \<^verbatim>\<open>stop\<close> and the effect of \<^verbatim>\<open>ProdReadyChromaDemo\<close>\<close>

text \<open>
  What the component finds when its effect runs: whether the two refs are set, whether the
  canvas gives a WebGL context, the driver, whether the video element has
  \<^verbatim>\<open>requestVideoFrameCallback\<close>, and the sizes of the two elements at that moment.
\<close>

record host =
  canvas_present :: bool
  video_present :: bool
  webgl_available :: bool
  driver :: gl_driver
  rvfc_in_video :: bool
  video_size :: "nat \<times> nat"
  canvas_size :: "nat \<times> nat"

definition start :: "host \<Rightarrow> pipeline \<Rightarrow> pipeline" where
  "start h s =
     (if \<not> canvas_present h \<or> \<not> video_present h then s
      else
        let s = console_log s ''starting'';
            s = s\<lparr>stopped := False\<rparr>
        in startProcessing getConfig s)"

definition stop :: "pipeline \<Rightarrow> pipeline" where
  "stop s = (console_log s ''stopping'')\<lparr>stopped := True\<rparr>"

text \<open>The function that the effect returns, run when the component is unmounted.\<close>

definition cleanup :: "pipeline \<Rightarrow> pipeline" where
  "cleanup s = gl (stop s) DeleteProgram"

text \<open>
  The object \<^verbatim>\<open>wgl\<close> as the effect creates it, with the two elements as they are then
  and the calls and the console output of \<^verbatim>\<open>init\<close>.
\<close>

definition new_wgl :: "host \<Rightarrow> WebGLProgram \<Rightarrow> gl_call list \<Rightarrow> console_msg list \<Rightarrow> pipeline" where
  "new_wgl h p calls out =
     \<lparr>stopped = True,
      useRequestVideoFrameCallback = True,
      requestVideoFrameCallbackIsAvailable = rvfc_in_video h,
      prog = p,
      videoWidth = fst (video_size h), videoHeight = snd (video_size h),
      canvasWidth = fst (canvas_size h), canvasHeight = snd (canvas_size h),
      gl_calls = calls, console = Log ''cvs vid'' # out,
      pending = [], cycles = 0\<rparr>"

text \<open>
  The effect: \<open>Inr None\<close> when a ref is not set (the effect returns at once), \<open>Inl\<close> the
  error thrown with the console output before it, or the pipeline after \<^verbatim>\<open>wgl.start()\<close>.
  The effect is the only caller of \<^verbatim>\<open>wgl.start\<close>, and its clean-up the only caller of
  \<^verbatim>\<open>wgl.stop\<close>.
\<close>

definition effect :: "host \<Rightarrow> error \<times> console_msg list + pipeline option" where
  "effect h =
     (if \<not> canvas_present h \<or> \<not> video_present h then Inr None
      else if \<not> webgl_available h
      then Inl (Error ''Could not initialize webgl'', [Log ''cvs vid''])
      else
        case init (driver h) of
          Inl (e, out) \<Rightarrow> Inl (e, Log ''cvs vid'' # out)
        | Inr (p, calls, out) \<Rightarrow>
            let wgl = new_wgl h p calls out
            in Inr (Some (start h wgl)))"

subsection \<open>Events\<close>

text \<open>
  After the effect the state changes by events: an armed callback fires (the one at the
  given position among the pending ones), the video element's native size changes, or the
  component is unmounted. A timeout that fires asks for an animation frame; the two other
  callbacks run \<^verbatim>\<open>processFrame\<close>. The delays are left out: the callbacks may fire in any
  order and at any moment. The first argument is the configuration provider that
  \<^verbatim>\<open>processFrame\<close> calls.
\<close>

datatype event = Fire nat | SourceResize nat nat | Cleanup

definition run_task :: "(unit \<Rightarrow> LiveTweakableParams) \<Rightarrow> task \<Rightarrow> pipeline \<Rightarrow> pipeline" where
  "run_task gc t s =
     (case t of
        VideoFrameCallback \<Rightarrow> processFrame gc s
      | Timeout \<Rightarrow> arm s AnimationFrame
      | AnimationFrame \<Rightarrow> processFrame gc s)"

definition step :: "(unit \<Rightarrow> LiveTweakableParams) \<Rightarrow> pipeline \<Rightarrow> event \<Rightarrow> pipeline" where
  "step gc s e =
     (case e of
        Fire i \<Rightarrow>
          if i < length (pending s)
          then run_task gc (pending s ! i)
                 (s\<lparr>pending := take i (pending s) @ drop (Suc i) (pending s)\<rparr>)
          else s
      | SourceResize w h \<Rightarrow> s\<lparr>videoWidth := w, videoHeight := h\<rparr>
      | Cleanup \<Rightarrow> cleanup s)"

definition run :: "(unit \<Rightarrow> LiveTweakableParams) \<Rightarrow> pipeline \<Rightarrow> event list \<Rightarrow> pipeline" where
  "run gc s es = foldl (step gc) s es"

subsection \<open>Observations\<close>

definition is_draw :: "gl_call \<Rightarrow> bool" where
  "is_draw c = (case c of DrawArrays _ _ \<Rightarrow> True | _ \<Rightarrow> False)"

definition is_viewport :: "gl_call \<Rightarrow> bool" where
  "is_viewport c = (case c of Viewport _ _ _ _ \<Rightarrow> True | _ \<Rightarrow> False)"

definition draws :: "pipeline \<Rightarrow> gl_call list" where
  "draws s = filter is_draw (gl_calls s)"

definition viewports :: "pipeline \<Rightarrow> gl_call list" where
  "viewports s = filter is_viewport (gl_calls s)"

definition is_source_resize :: "event \<Rightarrow> bool" where
  "is_source_resize e = (case e of SourceResize _ _ \<Rightarrow> True | _ \<Rightarrow> False)"

text \<open>
  The calls of one cycle after the viewport is synchronised: the upload of the frame, the
  uniforms (the thresholds and the key colour as the configuration gives them) and the draw.
\<close>

definition frame_calls :: "LiveTweakableParams \<Rightarrow> nat \<Rightarrow> nat \<Rightarrow> gl_call list" where
  "frame_calls config w h =
     [TexImage2D w h, Uniform1i texLoc 0,
      Uniform1f texWidthLoc (Num (real w)), Uniform1f texHeightLoc (Num (real h)),
      Uniform3f keyColorLoc (fst (keycolor config)) (fst (snd (keycolor config)))
        (snd (snd (keycolor config))),
      Uniform1f similarityLoc (similarity config),
      Uniform1f smoothnessLoc (smoothness config),
      Uniform1f spillLoc (spill config),
      DrawArrays 0 4]"

text \<open>The callback that a running cycle arms.\<close>

definition next_task :: "pipeline \<Rightarrow> task" where
  "next_task s =
     (if useRequestVideoFrameCallback s \<and> requestVideoFrameCallbackIsAvailable s
      then VideoFrameCallback else Timeout)"

text \<open>
  The component from its effect on: the result of the effect, followed by a list of events
  when the effect has started a pipeline. \<open>observed\<close> reads a value off the pipeline of
  such a result.
\<close>

definition after ::
  "host \<Rightarrow> (unit \<Rightarrow> LiveTweakableParams) \<Rightarrow> event list \<Rightarrow> error \<times> console_msg list + pipeline option"
where
  "after h gc es =
     (case effect h of
        Inr (Some s) \<Rightarrow> Inr (Some (run gc s es))
      | r \<Rightarrow> r)"

definition observed :: "(pipeline \<Rightarrow> 'a) \<Rightarrow> error \<times> console_msg list + pipeline option \<Rightarrow> 'a option" where
  "observed f res = (case res of Inr (Some s) \<Rightarrow> Some (f s) | _ \<Rightarrow> None)"

text \<open>
  Whether the widths of the source and of the render target differ: the resize that the next
  running cycle owes.
\<close>

definition width_debt :: "pipeline \<Rightarrow> nat" where
  "width_debt s = (if videoWidth s \<noteq> canvasWidth s then 1 else 0)"

text \<open>The values passed to a \<^verbatim>\<open>float\<close> uniform, in the order of the calls.\<close>

definition uniform1f_values :: "uniform_loc \<Rightarrow> pipeline \<Rightarrow> number list" where
  "uniform1f_values l s =
     concat (map (\<lambda>c. case c of Uniform1f l' v \<Rightarrow> if l' = l then [v] else [] | _ \<Rightarrow> [])
       (gl_calls s))"

text \<open>Whether an event runs \<^verbatim>\<open>processFrame\<close> in a state.\<close>

definition fires_cycle :: "pipeline \<Rightarrow> event \<Rightarrow> bool" where
  "fires_cycle s e =
     (case e of
        Fire i \<Rightarrow> i < length (pending s) \<and> pending s ! i \<noteq> Timeout
      | _ \<Rightarrow> False)"

section \<open>The fragment shader\<close>

text \<open>
  The fragment shader of \<^verbatim>\<open>ProdReadyChroma.tsx\<close> (the literal \<^verbatim>\<open>fragmentShaderRaw\<close>).
  A GLSL \<^verbatim>\<open>float\<close> is modelled as a real number: the shader's arithmetic is taken
  exact, without the rounding of a \<^verbatim>\<open>mediump\<close> float.

  Where GLSL ES 1.00 leaves the result of an operation open, the model returns \<open>None\<close>:
  a division by zero gives an unspecified value, \<^verbatim>\<open>pow(x, y)\<close> is undefined for
  \<open>x < 0\<close> and for \<open>x = 0\<close> with \<open>y \<le> 0\<close>, and \<^verbatim>\<open>clamp(x, lo, hi)\<close> is
  undefined for \<open>lo > hi\<close>.
\<close>

datatype vec2 = Vec2 (vx: real) (vy: real)
datatype vec3 = Vec3 (vr: real) (vg: real) (vb: real)
datatype vec4 = Vec4 (r: real) (g: real) (b: real) (a: real)

text \<open>The swizzle \<^verbatim>\<open>.rgb\<close> of a \<^verbatim>\<open>vec4\<close>, read and written.\<close>

definition rgb :: "vec4 \<Rightarrow> vec3" where
  "rgb c = Vec3 (r c) (g c) (b c)"

definition set_rgb :: "vec4 \<Rightarrow> vec3 \<Rightarrow> vec4" where
  "set_rgb c v = Vec4 (vr v) (vg v) (vb v) (a c)"

definition set_a :: "vec4 \<Rightarrow> real \<Rightarrow> vec4" where
  "set_a c x = Vec4 (r c) (g c) (b c) x"

subsection \<open>Built-in operations\<close>

definition glsl_div :: "real \<Rightarrow> real \<Rightarrow> real option" where
  "glsl_div x y = (if y = 0 then None else Some (x / y))"

definition glsl_clamp :: "real \<Rightarrow> real \<Rightarrow> real \<Rightarrow> real option" where
  "glsl_clamp x minVal maxVal =
     (if minVal > maxVal then None else Some (min (max x minVal) maxVal))"

definition glsl_pow :: "real \<Rightarrow> real \<Rightarrow> real option" where
  "glsl_pow x y = (if x < 0 \<or> (x = 0 \<and> y \<le> 0) then None else Some (x powr y))"

text \<open>\<^verbatim>\<open>distance(p0, p1)\<close> is \<^verbatim>\<open>length(p0 - p1)\<close>.\<close>

definition glsl_distance :: "vec2 \<Rightarrow> vec2 \<Rightarrow> real" where
  "glsl_distance p0 p1 = sqrt ((vx p0 - vx p1)\<^sup>2 + (vy p0 - vy p1)\<^sup>2)"

text \<open>\<^verbatim>\<open>mix(x, y, a)\<close> is \<^verbatim>\<open>x * (1 - a) + y * a\<close>, component by component.\<close>

definition glsl_mix :: "vec3 \<Rightarrow> vec3 \<Rightarrow> real \<Rightarrow> vec3" where
  "glsl_mix x y t =
     Vec3 (vr x * (1 - t) + vr y * t) (vg x * (1 - t) + vg y * t) (vb x * (1 - t) + vb y * t)"

subsection \<open>Uniforms\<close>

text \<open>
  The shader's \<^verbatim>\<open>uniform\<close> declarations. The sampler \<^verbatim>\<open>tex\<close> is the function that
  \<^verbatim>\<open>texture2D(tex, .)\<close> computes, from a texture coordinate to the sampled colour.
\<close>

record uniforms =
  tex :: "vec2 \<Rightarrow> vec4"
  texWidth :: real
  texHeight :: real
  keyColor :: vec3
  similarity :: real
  smoothness :: real
  spill :: real

subsection \<open>\<^verbatim>\<open>RGBtoUV\<close> and \<^verbatim>\<open>ProcessChromaKey\<close>\<close>

definition RGBtoUV :: "vec3 \<Rightarrow> vec2" where
  "RGBtoUV c =
     Vec2 (vr c * (- 0.169) + vg c * (- 0.331) + vb c * 0.5 + 0.5)
          (vr c * 0.5 + vg c * (- 0.419) + vb c * (- 0.081) + 0.5)"

text \<open>
  Each local variable of \<^verbatim>\<open>ProcessChromaKey\<close> is a definition of its own, under the
  variable's name, so that a property of one line of the shader can be stated.
\<close>

definition chromaDist :: "uniforms \<Rightarrow> vec2 \<Rightarrow> real" where
  "chromaDist U texCoord =
     glsl_distance (RGBtoUV (rgb (tex U texCoord))) (RGBtoUV (keyColor U))"

definition baseMask :: "uniforms \<Rightarrow> vec2 \<Rightarrow> real" where
  "baseMask U texCoord = chromaDist U texCoord - similarity U"

definition fullMask :: "uniforms \<Rightarrow> vec2 \<Rightarrow> real option" where
  "fullMask U texCoord = do {
     q \<leftarrow> glsl_div (baseMask U texCoord) (smoothness U);
     c \<leftarrow> glsl_clamp q 0 1;
     glsl_pow c 1.5
   }"

definition spillVal :: "uniforms \<Rightarrow> vec2 \<Rightarrow> real option" where
  "spillVal U texCoord = do {
     q \<leftarrow> glsl_div (baseMask U texCoord) (spill U);
     c \<leftarrow> glsl_clamp q 0 1;
     glsl_pow c 1.5
   }"

definition desat :: "vec4 \<Rightarrow> real option" where
  "desat rgba = glsl_clamp (r rgba * 0.2126 + g rgba * 0.7152 + b rgba * 0.0722) 0 1"

definition ProcessChromaKey :: "uniforms \<Rightarrow> vec2 \<Rightarrow> vec4 option" where
  "ProcessChromaKey U texCoord = do {
     let rgba = tex U texCoord;
     fm \<leftarrow> fullMask U texCoord;
     let rgba = set_a rgba fm;
     sv \<leftarrow> spillVal U texCoord;
     d \<leftarrow> desat rgba;
     let rgba = set_rgb rgba (glsl_mix (Vec3 d d d) (rgb rgba) sv);
     Some rgba
   }"

text \<open>
  \<^verbatim>\<open>main\<close>: the texture coordinate of the fragment at \<^verbatim>\<open>gl_FragCoord\<close>, and the
  colour written to \<^verbatim>\<open>gl_FragColor\<close>.
\<close>

definition main :: "uniforms \<Rightarrow> vec2 \<Rightarrow> vec4 option" where
  "main U gl_FragCoord = do {
     tx \<leftarrow> glsl_div (vx gl_FragCoord) (texWidth U);
     ty \<leftarrow> glsl_div (vy gl_FragCoord) (texHeight U);
     ProcessChromaKey U (Vec2 tx (1.0 - ty))
   }"

subsection \<open>The algorithm as the specification words it\<close>

text \<open>
  Section 4.1 and 4.2 of the specification, over a sampled colour \<open>s\<close> and a key colour
  \<open>k\<close>, with the division and the power of the real numbers.
\<close>

definition spec_toChromaPlane :: "vec3 \<Rightarrow> real \<times> real" where
  "spec_toChromaPlane c =
     (- 0.169 * vr c - 0.331 * vg c + 0.5 * vb c + 0.5,
      0.5 * vr c - 0.419 * vg c - 0.081 * vb c + 0.5)"

definition spec_euclideanDistance :: "real \<times> real \<Rightarrow> real \<times> real \<Rightarrow> real" where
  "spec_euclideanDistance p q = sqrt ((fst p - fst q)\<^sup>2 + (snd p - snd q)\<^sup>2)"

definition spec_clamp01 :: "real \<Rightarrow> real" where
  "spec_clamp01 x = (if x < 0 then 0 else if x > 1 then 1 else x)"

definition spec_lerp :: "real \<Rightarrow> real \<Rightarrow> real \<Rightarrow> real" where
  "spec_lerp x y t = x + t * (y - x)"

definition spec_d :: "vec3 \<Rightarrow> vec3 \<Rightarrow> real" where
  "spec_d s k = spec_euclideanDistance (spec_toChromaPlane s) (spec_toChromaPlane k)"

definition spec_base :: "vec3 \<Rightarrow> vec3 \<Rightarrow> real \<Rightarrow> real" where
  "spec_base s k sim = spec_d s k - sim"

text \<open>The mask of a base term and a denominator: \<^verbatim>\<open>clamp(base/den, 0, 1) ^ 1.5\<close>.\<close>

definition spec_mask :: "real \<Rightarrow> real \<Rightarrow> real" where
  "spec_mask base den = spec_clamp01 (base / den) powr 1.5"

definition spec_alphaMask :: "vec3 \<Rightarrow> vec3 \<Rightarrow> real \<Rightarrow> real \<Rightarrow> real" where
  "spec_alphaMask s k sim smooth = spec_mask (spec_base s k sim) smooth"

definition spec_spillMask :: "vec3 \<Rightarrow> vec3 \<Rightarrow> real \<Rightarrow> real \<Rightarrow> real" where
  "spec_spillMask s k sim sp = spec_mask (spec_base s k sim) sp"

definition spec_luma :: "vec3 \<Rightarrow> real" where
  "spec_luma s = spec_clamp01 (0.2126 * vr s + 0.7152 * vg s + 0.0722 * vb s)"

definition spec_outputRGB :: "vec3 \<Rightarrow> vec3 \<Rightarrow> real \<Rightarrow> real \<Rightarrow> vec3" where
  "spec_outputRGB s k sim sp =
     Vec3 (spec_lerp (spec_luma s) (vr s) (spec_spillMask s k sim sp))
          (spec_lerp (spec_luma s) (vg s) (spec_spillMask s k sim sp))
          (spec_lerp (spec_luma s) (vb s) (spec_spillMask s k sim sp))"

definition spec_output :: "vec3 \<Rightarrow> vec3 \<Rightarrow> real \<Rightarrow> real \<Rightarrow> real \<Rightarrow> vec4" where
  "spec_output s k sim smooth sp =
     Vec4 (vr (spec_outputRGB s k sim sp)) (vg (spec_outputRGB s k sim sp))
          (vb (spec_outputRGB s k sim sp)) (spec_alphaMask s k sim smooth)"

section \<open>Concrete inputs\<close>

text \<open>
  A driver that does all it is asked, and one on which the fragment shader does not compile
  and the program does not link; one that creates no program object.
\<close>

definition driver_ok :: gl_driver where
  "driver_ok = \<lparr>createShader_ok = (\<lambda>_. True), compile_status = (\<lambda>_. True),
                shader_info_log = (\<lambda>_. []), createProgram_ok = True, link_status = True\<rparr>"

definition driver_bad :: gl_driver where
  "driver_bad = \<lparr>createShader_ok = (\<lambda>_. True), compile_status = (\<lambda>t. t = VERTEX_SHADER),
                 shader_info_log = (\<lambda>_. ''ERROR: 0:1: syntax error''),
                 createProgram_ok = True, link_status = False\<rparr>"

definition driver_no_program :: gl_driver where
  "driver_no_program = driver_ok\<lparr>createProgram_ok := False\<rparr>"

text \<open>
  The page when the effect runs: both elements are there, the video has no frame yet (its
  native size is \<open>0 \<times> 0\<close>) and the canvas has its default size. \<open>h_fallback\<close> is a
  browser without \<^verbatim>\<open>requestVideoFrameCallback\<close>.
\<close>

definition h_demo :: host where
  "h_demo = \<lparr>canvas_present = True, video_present = True, webgl_available = True,
             driver = driver_ok, rvfc_in_video = True,
             video_size = (0, 0), canvas_size = (300, 150)\<rparr>"

definition h_fallback :: host where
  "h_fallback = h_demo\<lparr>rvfc_in_video := False\<rparr>"

definition h_bad :: host where
  "h_bad = h_demo\<lparr>driver := driver_bad\<rparr>"

definition h_no_program :: host where
  "h_no_program = h_demo\<lparr>driver := driver_no_program\<rparr>"

text \<open>
  The pipeline that the effect starts on these pages: \<^verbatim>\<open>wgl\<close> after \<^verbatim>\<open>wgl.start()\<close>, when
  the first cycle has run.
\<close>

definition s_demo :: pipeline where
  "s_demo = start h_demo (new_wgl h_demo (Program True) init_calls [])"

definition s_fallback :: pipeline where
  "s_fallback = start h_fallback (new_wgl h_fallback (Program True) init_calls [])"

text \<open>
  The video reports \<open>640 \<times> 480\<close>, a cycle runs, the video changes to \<open>640 \<times> 360\<close>, a
  cycle runs.
\<close>

definition height_change :: "event list" where
  "height_change = [SourceResize 640 480, Fire 0, SourceResize 640 360, Fire 0]"

text \<open>
  A configuration provider whose snapshot has a key colour that is no hexadecimal colour, a
  smoothness of zero and a negative spill; and the object \<^verbatim>\<open>wgl\<close> of the demo as
  \<^verbatim>\<open>start\<close> passes it to \<^verbatim>\<open>startProcessing\<close>.
\<close>

definition bad_getConfig :: "unit \<Rightarrow> LiveTweakableParams" where
  "bad_getConfig u = config_of (RawConfig ''chroma green'' (Num 0.4) (Num 0) (Num (- 1)))"

definition wgl_started :: pipeline where
  "wgl_started =
     (console_log (new_wgl h_demo (Program True) init_calls []) ''starting'')\<lparr>stopped := False\<rparr>"

text \<open>
  Two frames of one colour under the configuration of the demo: a frame of the key colour
  \<^verbatim>\<open>#11ff05\<close> itself, and a black frame keyed against blue.
\<close>

definition U_key :: uniforms where
  "U_key = \<lparr>tex = (\<lambda>_. Vec4 (1 / 15) 1 (1 / 51) 1), texWidth = 640, texHeight = 480,
            keyColor = Vec3 (1 / 15) 1 (1 / 51),
            similarity = 0.4, smoothness = 0.08, spill = 0.1\<rparr>"

definition U_far :: uniforms where
  "U_far = \<lparr>tex = (\<lambda>_. Vec4 0 0 0 1), texWidth = 640, texHeight = 480,
            keyColor = Vec3 0 0 1,
            similarity = 0.4, smoothness = 0.08, spill = 0.1\<rparr>"

text \<open>
  A frame at the chroma distance \<open>0.472622\<close> from a black key colour, under a similarity
  that leaves the base term \<open>0.1\<close> and a smoothness and a spill of \<open>0.4\<close>: both masks
  are strictly between \<open>0\<close> and \<open>1\<close>.
\<close>

definition U_mid :: uniforms where
  "U_mid = \<lparr>tex = (\<lambda>_. Vec4 0.162 0 1 1), texWidth = 640, texHeight = 480,
            keyColor = Vec3 0 0 0,
            similarity = 0.372622, smoothness = 0.4, spill = 0.4\<rparr>"

definition tc0 :: vec2 where
  "tc0 = Vec2 0 0"

section \<open>The shader computes the masks of the specification\<close>

text \<open>
  Where the denominator is not zero, the two masks of the shader are defined and are the
  mask \<open>spec_mask\<close> of the base term.
\<close>

lemma fullMask_Some: "smoothness U \<noteq> 0 \<Longrightarrow>
  fullMask U tc = Some (spec_mask (baseMask U tc) (smoothness U))"
  by (simp add: fullMask_def glsl_div_def glsl_clamp_def glsl_pow_def spec_mask_def spec_clamp01_def)

lemma spillVal_Some: "spill U \<noteq> 0 \<Longrightarrow>
  spillVal U tc = Some (spec_mask (baseMask U tc) (spill U))"
  by (simp add: spillVal_def glsl_div_def glsl_clamp_def glsl_pow_def spec_mask_def spec_clamp01_def)

lemma spec_toChromaPlane_eq: "spec_toChromaPlane c = (vx (RGBtoUV c), vy (RGBtoUV c))"
  by (simp add: spec_toChromaPlane_def RGBtoUV_def algebra_simps)

lemma spec_d_eq: "spec_d (rgb (tex U tc)) (keyColor U) = chromaDist U tc"
  by (simp add: spec_d_def chromaDist_def spec_euclideanDistance_def glsl_distance_def
      spec_toChromaPlane_eq)

lemma spec_base_eq: "spec_base (rgb (tex U tc)) (keyColor U) (similarity U) = baseMask U tc"
  by (simp add: spec_base_def baseMask_def spec_d_eq)

lemma desat_eq: "desat c = Some (spec_luma (rgb c))"
  by (simp add: desat_def glsl_clamp_def spec_luma_def spec_clamp01_def rgb_def algebra_simps)

lemma spec_mask_low:
  assumes "0 < den" and "base \<le> 0"
  shows "spec_mask base den = 0"
proof -
  have "base / den \<le> 0"
    using assms by (simp add: divide_le_0_iff)
  then have "spec_clamp01 (base / den) = 0"
    by (simp add: spec_clamp01_def)
  then show ?thesis
    by (simp add: spec_mask_def)
qed

lemma spec_mask_high:
  assumes "0 < den" and "den \<le> base"
  shows "spec_mask base den = 1"
proof -
  have "1 \<le> base / den"
    using assms by simp
  then have "spec_clamp01 (base / den) = 1"
    by (simp add: spec_clamp01_def)
  then show ?thesis
    by (simp add: spec_mask_def)
qed

lemma spec_clamp01_mono: "x \<le> y \<Longrightarrow> spec_clamp01 x \<le> spec_clamp01 y"
  by (simp add: spec_clamp01_def)

lemma spec_clamp01_nonneg: "0 \<le> spec_clamp01 x"
  by (simp add: spec_clamp01_def)

lemma spec_mask_mono: "0 < den \<Longrightarrow> b1 \<le> b2 \<Longrightarrow> spec_mask b1 den \<le> spec_mask b2 den"
  unfolding spec_mask_def
  by (intro powr_mono2 spec_clamp01_mono spec_clamp01_nonneg divide_right_mono) simp_all

lemma chromaDist_key: "rgb (tex U tc) = keyColor U \<Longrightarrow> chromaDist U tc = 0"
  by (simp add: chromaDist_def glsl_distance_def)

lemma chromaDist_U_key: "chromaDist U_key tc = 0"
  by (simp add: chromaDist_key U_key_def rgb_def)

lemma chromaDist_U_far: "chromaDist U_far tc = sqrt 0.256561"
  by (simp add: chromaDist_def glsl_distance_def U_far_def rgb_def RGBtoUV_def power2_eq_square)

lemma chromaDist_U_far_ge: "0.48 \<le> chromaDist U_far tc"
  unfolding chromaDist_U_far by (rule real_le_rsqrt) (simp add: power2_eq_square)

text \<open>
  Claim C1. For every sampled colour \<open>s\<close> (the colour that \<^verbatim>\<open>texture2D\<close> returns at the
  texture coordinate) and key colour \<open>k\<close>, the colour that \<^verbatim>\<open>ProcessChromaKey\<close> returns
  is the output of the specification's algorithm: the alpha is
  \<^verbatim>\<open>clamp(base/smoothness, 0, 1) ^ 1.5\<close> and the colour is the interpolation from the
  clamped luma to \<open>s\<close> by \<^verbatim>\<open>clamp(base/spill, 0, 1) ^ 1.5\<close>, where \<open>base\<close> is the
  distance of the two colours in the chroma plane minus the similarity. The two
  denominators are not zero, as the division requires.
\<close>

theorem ProcessChromaKey_refines_spec: "smoothness U \<noteq> 0 \<Longrightarrow> spill U \<noteq> 0 \<Longrightarrow>
  ProcessChromaKey U tc = Some (spec_output (rgb (tex U tc)) (keyColor U) (similarity U) (smoothness U) (spill U))"
  unfolding ProcessChromaKey_def
  apply (simp add: fullMask_Some spillVal_Some desat_eq Let_def)
  apply (simp add: spec_output_def spec_outputRGB_def spec_alphaMask_def spec_spillMask_def 
     spec_base_eq spec_lerp_def set_rgb_def set_a_def glsl_mix_def)
  apply (simp add: rgb_def algebra_simps)
  done

text \<open>
  The theorem at a frame of the key colour of the demo: the pixel is desaturated to its luma
  and fully transparent.
\<close>

theorem ProcessChromaKey_refines_spec_witness: "smoothness U_key \<noteq> 0 \<and> spill U_key \<noteq> 0 \<and>
  ProcessChromaKey U_key tc0 = Some (Vec4 (232939 / 318750) (232939 / 318750) (232939 / 318750) 0)"
proof -
  have h: "smoothness U_key \<noteq> 0" "spill U_key \<noteq> 0" by (simp_all add: U_key_def)
  have b: "spec_base (rgb (tex U_key tc0)) (keyColor U_key) (similarity U_key) = - 0.4"
    by (simp add: spec_base_eq baseMask_def chromaDist_U_key) (simp add: U_key_def)
  have "spec_output (rgb (tex U_key tc0)) (keyColor U_key) (similarity U_key) (smoothness U_key) (spill U_key)
     = Vec4 (232939 / 318750) (232939 / 318750) (232939 / 318750) 0"
    unfolding spec_output_def spec_outputRGB_def spec_alphaMask_def spec_spillMask_def b
    by (simp add: U_key_def spec_mask_low spec_lerp_def spec_luma_def spec_clamp01_def rgb_def)
  with ProcessChromaKey_refines_spec [OF h, of tc0] h show ?thesis by simp
qed

text \<open>
  Claim C7. For a configuration with \<open>similarity \<ge> 0\<close> and \<open>smoothness > 0\<close>, the
  alpha written by the shader (\<^verbatim>\<open>fullMask\<close>) is \<open>0\<close> when the chroma distance is at most
  the similarity, in particular for a pixel equal to the key colour, and is \<open>1\<close> when the
  chroma distance is at least \<open>similarity + smoothness\<close>.
\<close>

theorem fullMask_thresholds:
  assumes "0 \<le> similarity U" and "0 < smoothness U"
  shows "(chromaDist U tc \<le> similarity U \<longrightarrow> fullMask U tc = Some 0)
       \<and> (rgb (tex U tc) = keyColor U \<longrightarrow> fullMask U tc = Some 0)
       \<and> (similarity U + smoothness U \<le> chromaDist U tc \<longrightarrow> fullMask U tc = Some 1)"
  using assms by (simp add: fullMask_Some spec_mask_low spec_mask_high baseMask_def chromaDist_key)

text \<open>
  The theorem at a frame of the key colour (distance \<open>0\<close>) and at a black frame keyed
  against blue (distance above \<open>0.48\<close>), under similarity \<open>0.4\<close> and smoothness \<open>0.08\<close>.
\<close>

theorem fullMask_thresholds_witness: "fullMask U_key tc0 = Some 0 \<and> fullMask U_far tc0 = Some 1"
proof -
  have k: "0 \<le> similarity U_key" "0 < smoothness U_key" "rgb (tex U_key tc0) = keyColor U_key"
    by (simp_all add: U_key_def rgb_def)
  have f: "0 \<le> similarity U_far" "0 < smoothness U_far"
    "similarity U_far + smoothness U_far \<le> chromaDist U_far tc0"
    using chromaDist_U_far_ge [of tc0] by (simp_all add: U_far_def)
  show ?thesis using fullMask_thresholds [OF k(1,2), of tc0] fullMask_thresholds [OF f(1,2), of tc0] k(3) f(3) by blast
qed

text \<open>
  Claim C8. For a fixed similarity and a fixed smoothness \<open>> 0\<close>, the alpha written by the
  shader is \<^verbatim>\<open>clamp((d - similarity)/smoothness, 0, 1) ^ 1.5\<close> of the chroma distance \<open>d\<close>,
  and it does not decrease when the chroma distance grows: of two pixels, the one at the
  larger chroma distance gets the larger or equal alpha.
\<close>

theorem fullMask_monotone:
  assumes "0 < smoothness U1"
    and "similarity U2 = similarity U1" and "smoothness U2 = smoothness U1"
    and "chromaDist U1 tc1 \<le> chromaDist U2 tc2"
  shows "\<exists>a1 a2. fullMask U1 tc1 = Some a1 \<and> fullMask U2 tc2 = Some a2
           \<and> a1 = spec_mask (chromaDist U1 tc1 - similarity U1) (smoothness U1)
           \<and> a2 = spec_mask (chromaDist U2 tc2 - similarity U1) (smoothness U1)
           \<and> a1 \<le> a2"
  using assms by (simp add: fullMask_Some baseMask_def spec_mask_mono)

theorem fullMask_monotone_witness: "fullMask U_key tc0 = Some 0 \<and> fullMask U_far tc0 = Some 1 \<and> chromaDist U_key tc0 \<le> chromaDist U_far tc0"
proof -
  have h: "0 < smoothness U_key" "similarity U_far = similarity U_key" "smoothness U_far = smoothness U_key"
    by (simp_all add: U_key_def U_far_def)
  have le: "chromaDist U_key tc0 \<le> chromaDist U_far tc0"
    using chromaDist_U_far_ge [of tc0] by (simp add: chromaDist_U_key)
  have far: "smoothness U_key \<le> chromaDist U_far tc0 - similarity U_key"
    using chromaDist_U_far_ge [of tc0] by (simp add: U_key_def)
  have m0: "spec_mask (chromaDist U_key tc0 - similarity U_key) (smoothness U_key) = 0"
    unfolding chromaDist_U_key by (rule spec_mask_low) (simp_all add: U_key_def)
  have m1: "spec_mask (chromaDist U_far tc0 - similarity U_key) (smoothness U_key) = 1"
    by (rule spec_mask_high [OF h(1) far])
  note m = m0 m1
  from fullMask_monotone [OF h le] show ?thesis using m le by auto
qed

text \<open>The masks at the frame \<open>U_mid\<close>, whatever the spill.\<close>

lemma quarter_powr: "(1 / 4 :: real) powr (3 / 2) = 1 / 8"
proof -
  have "(1 / 4 :: real) powr (3 / 2) = (1 / 4) powr (1 + 1 / 2)"
    by simp
  also have "\<dots> = (1 / 4) powr 1 * (1 / 4) powr (1 / 2)"
    by (rule powr_add)
  also have "(1 / 4 :: real) powr (1 / 2) = sqrt (1 / 4)"
    by (simp add: powr_half_sqrt)
  also have "sqrt (1 / 4 :: real) = 1 / 2"
    by (rule real_sqrt_unique) (simp_all add: power2_eq_square)
  finally show ?thesis by simp
qed

lemma spec_mask_quarter: "spec_mask (1 / 10) (2 / 5) = 1 / 8"
  by (simp add: spec_mask_def spec_clamp01_def quarter_powr)

lemma chromaDist_U_mid: "chromaDist (U_mid\<lparr>spill := x\<rparr>) tc = 0.472622"
  unfolding chromaDist_def glsl_distance_def
  by (rule real_sqrt_unique) (simp_all add: U_mid_def rgb_def RGBtoUV_def power2_eq_square)

text \<open>
  Claim C9. The alpha mask and the spill mask are computed from the same base term, the
  distance of the sampled colour and the key colour in the chroma plane minus the
  similarity, with the same clamp range and exponent: each is
  \<^verbatim>\<open>clamp(base/den, 0, 1) ^ 1.5\<close>, the alpha mask with the smoothness as the denominator and
  the spill mask with the spill. So the spill mask is the alpha mask of the uniforms in which
  the smoothness is replaced by the spill, and for every pixel and every configuration with
  \<open>spill = smoothness\<close> the two masks are equal (and defined, when the common denominator
  is not zero).
\<close>

theorem spillVal_eq_fullMask:
  "baseMask U tc = spec_d (rgb (tex U tc)) (keyColor U) - similarity U
   \<and> chromaDist U tc = spec_d (rgb (tex U tc)) (keyColor U)
   \<and> (smoothness U \<noteq> 0 \<longrightarrow>
      fullMask U tc = Some (spec_mask (chromaDist U tc - similarity U) (smoothness U)))
   \<and> (spill U \<noteq> 0 \<longrightarrow>
      spillVal U tc = Some (spec_mask (chromaDist U tc - similarity U) (spill U)))
   \<and> spillVal U tc = fullMask (U\<lparr>smoothness := spill U\<rparr>) tc
   \<and> (spill U = smoothness U \<longrightarrow> spillVal U tc = fullMask U tc)
   \<and> (spill U = smoothness U \<and> smoothness U \<noteq> 0 \<longrightarrow> spillVal U tc \<noteq> None)"
proof -
  have "baseMask U tc = spec_d (rgb (tex U tc)) (keyColor U) - similarity U"
    by (simp add: baseMask_def spec_d_eq)
  moreover have "chromaDist U tc = spec_d (rgb (tex U tc)) (keyColor U)"
    by (simp add: spec_d_eq)
  moreover have "smoothness U \<noteq> 0 \<longrightarrow>
      fullMask U tc = Some (spec_mask (chromaDist U tc - similarity U) (smoothness U))"
    by (simp add: fullMask_Some baseMask_def)
  moreover have "spill U \<noteq> 0 \<longrightarrow>
      spillVal U tc = Some (spec_mask (chromaDist U tc - similarity U) (spill U))"
    by (simp add: spillVal_Some baseMask_def)
  moreover have "spillVal U tc = fullMask (U\<lparr>smoothness := spill U\<rparr>) tc"
    by (simp add: spillVal_def fullMask_def baseMask_def chromaDist_def)
  moreover have "spill U = smoothness U \<longrightarrow> spillVal U tc = fullMask U tc"
    by (simp add: spillVal_def fullMask_def)
  moreover have "spill U = smoothness U \<and> smoothness U \<noteq> 0 \<longrightarrow> spillVal U tc \<noteq> None"
    by (simp add: spillVal_Some)
  ultimately show ?thesis by blast
qed

text \<open>
  The theorem at \<open>U_mid\<close>, where both masks are \<open>1/8\<close>; with the spill changed to
  \<open>0.1\<close> the spill mask is \<open>1\<close> and the alpha mask still \<open>1/8\<close>.
\<close>

theorem spillVal_eq_fullMask_witness:
  "spill U_mid = smoothness U_mid
   \<and> spillVal U_mid tc0 = Some (1 / 8) \<and> fullMask U_mid tc0 = Some (1 / 8)
   \<and> spill (U_mid\<lparr>spill := 0.1\<rparr>) \<noteq> smoothness (U_mid\<lparr>spill := 0.1\<rparr>)
   \<and> spillVal (U_mid\<lparr>spill := 0.1\<rparr>) tc0 = Some 1
   \<and> fullMask (U_mid\<lparr>spill := 0.1\<rparr>) tc0 = Some (1 / 8)"
proof -
  let ?V = "U_mid\<lparr>spill := 0.1\<rparr>"
  have e: "spill U_mid = smoothness U_mid" "spill U_mid \<noteq> 0" "smoothness U_mid \<noteq> 0"
    by (simp_all add: U_mid_def)
  have n: "spill ?V \<noteq> smoothness ?V" "spill ?V \<noteq> 0" "smoothness ?V \<noteq> 0"
    by (simp_all add: U_mid_def)
  have b: "chromaDist U_mid tc0 - similarity U_mid = 1 / 10"
    "chromaDist ?V tc0 - similarity ?V = 1 / 10"
    using chromaDist_U_mid [of "spill U_mid" tc0] chromaDist_U_mid [of "0.1" tc0]
    by (simp_all add: U_mid_def)
  have m: "spec_mask (1 / 10) (smoothness U_mid) = 1 / 8" "spec_mask (1 / 10) (spill U_mid) = 1 / 8"
    "spec_mask (1 / 10) (smoothness ?V) = 1 / 8"
    using spec_mask_quarter by (simp_all add: U_mid_def)
  have h: "spec_mask (1 / 10) (spill ?V) = 1"
    by (rule spec_mask_high) (simp_all add: U_mid_def)
  from spillVal_eq_fullMask [of U_mid tc0] e
  have 1: "fullMask U_mid tc0 = Some (spec_mask (chromaDist U_mid tc0 - similarity U_mid) (smoothness U_mid))"
    "spillVal U_mid tc0 = Some (spec_mask (chromaDist U_mid tc0 - similarity U_mid) (spill U_mid))"
    by blast+
  from spillVal_eq_fullMask [of ?V tc0] n
  have 2: "fullMask ?V tc0 = Some (spec_mask (chromaDist ?V tc0 - similarity ?V) (smoothness ?V))"
    "spillVal ?V tc0 = Some (spec_mask (chromaDist ?V tc0 - similarity ?V) (spill ?V))"
    by blast+
  from 1 2 e(1) n(1) show ?thesis
    unfolding b m h by blast
qed

section \<open>\<^verbatim>\<open>hexColorToRGBPct\<close> returns a colour\<close>

lemma hex_not_special:
  assumes "is_hex_digit c"
  shows "\<not> is_white_space c" "c \<noteq> CHR ''-''" "c \<noteq> CHR ''+''" "c \<noteq> CHR ''x''" "c \<noteq> CHR ''X''"
  using assms by (auto simp: is_hex_digit_def is_white_space_def Let_def)

lemma digit_value_le: "is_hex_digit c \<Longrightarrow> digit_value c \<le> 15"
  by (auto simp: is_hex_digit_def digit_value_def Let_def)

lemma parseInt16_zero: "parseInt16 ''0'' = Num 0"
  by (simp add: parseInt16_def is_white_space_def is_hex_digit_def digit_value_def Let_def)

lemma parseInt16_two:
  assumes "is_hex_digit c1" and "is_hex_digit c2"
  shows "parseInt16 [c1, c2] = Num (real (16 * digit_value c1 + digit_value c2))"
  using assms hex_not_special [OF assms(1)] hex_not_special [OF assms(2)]
  by (simp add: parseInt16_def Let_def)

lemma match_Some:
  assumes "match_sharp_hex6 str = Some ds"
  shows "\<exists>c1 c2 c3 c4 c5 c6. ds = [c1, c2, c3, c4, c5, c6] \<and> str = CHR ''#'' # ds
     \<and> is_hex_digit c1 \<and> is_hex_digit c2 \<and> is_hex_digit c3 \<and> is_hex_digit c4 \<and> is_hex_digit c5 \<and> is_hex_digit c6"
proof -
  from assms have s: "str = CHR ''#'' # ds" and l: "length ds = 6" and h: "list_all is_hex_digit ds"
    by (auto simp: match_sharp_hex6_def split: list.splits if_splits)
  from l obtain c1 c2 c3 c4 c5 c6 where "ds = [c1, c2, c3, c4, c5, c6]"
    by (auto simp: length_Suc_conv eval_nat_numeral)
  with s h show ?thesis by simp
qed

lemma hex6_value:
  assumes "is_hex_digit c1" "is_hex_digit c2" "is_hex_digit c3" "is_hex_digit c4" "is_hex_digit c5" "is_hex_digit c6"
  shows "hexColorToRGBPct [CHR ''#'', c1, c2, c3, c4, c5, c6] =
     (Num (real (16 * digit_value c1 + digit_value c2) / 255),
      Num (real (16 * digit_value c3 + digit_value c4) / 255),
      Num (real (16 * digit_value c5 + digit_value c6) / 255))"
proof -
  have m: "match_sharp_hex6 [CHR ''#'', c1, c2, c3, c4, c5, c6] = Some [c1, c2, c3, c4, c5, c6]"
    using assms by (simp add: match_sharp_hex6_def)
  have s: "substring [c1, c2, c3, c4, c5, c6] 0 2 = [c1, c2]"
    "substring [c1, c2, c3, c4, c5, c6] 2 4 = [c3, c4]"
    "substring [c1, c2, c3, c4, c5, c6] 4 6 = [c5, c6]"
    by (simp_all add: substring_def Let_def)
  show ?thesis
    unfolding hexColorToRGBPct_def m Let_def
    by (simp only: substring_or_0_def option.case s parseInt16_two assms div255_def number.case
        list.distinct if_True not_False_eq_True)
qed

lemma no_match_black:
  assumes "match_sharp_hex6 str = None"
  shows "hexColorToRGBPct str = (Num 0, Num 0, Num 0)"
  using assms by (simp add: hexColorToRGBPct_def substring_or_0_def parseInt16_zero div255_def)

lemma byte_bounds:
  assumes "is_hex_digit c1" and "is_hex_digit c2"
  shows "0 \<le> real (16 * digit_value c1 + digit_value c2) / 255"
    and "real (16 * digit_value c1 + digit_value c2) / 255 \<le> 1"
proof -
  have "16 * digit_value c1 + digit_value c2 \<le> 255"
    using digit_value_le [OF assms(1)] digit_value_le [OF assms(2)] by linarith
  then show "real (16 * digit_value c1 + digit_value c2) / 255 \<le> 1" by simp
  show "0 \<le> real (16 * digit_value c1 + digit_value c2) / 255" by simp
qed

lemma mem_by_code: "c \<in> set cs \<longleftrightarrow> (of_char c :: nat) \<in> of_char ` set cs"
  using inj_image_mem_iff [OF inj_of_char, of c "set cs", where ?'a1 = nat] by simp

lemma is_hex_digit_iff: "is_hex_digit c \<longleftrightarrow> c \<in> set ''0123456789abcdefABCDEF''"
  unfolding mem_by_code [of c] is_hex_digit_def Let_def by (simp, presburger)

lemma digit_value_table:
  "map digit_value ''0123456789abcdefABCDEF'' =
     [0, 1, 2, 3, 4, 5, 6, 7, 8, 9, 10, 11, 12, 13, 14, 15, 10, 11, 12, 13, 14, 15]"
  by (simp add: digit_value_def)

lemma match_iff:
  "match_sharp_hex6 str \<noteq> None \<longleftrightarrow>
     (\<exists>ds. str = CHR ''#'' # ds \<and> length ds = 6 \<and> set ds \<subseteq> set ''0123456789abcdefABCDEF'')"
proof -
  have "list_all is_hex_digit ds \<longleftrightarrow> set ds \<subseteq> set ''0123456789abcdefABCDEF''" for ds
    unfolding list_all_iff using is_hex_digit_iff by blast
  then show ?thesis
    by (cases str) (auto simp: match_sharp_hex6_def)
qed

text \<open>
  Claim C10. For every string, \<^verbatim>\<open>hexColorToRGBPct\<close> returns three numbers (none is
  \<^verbatim>\<open>NaN\<close>), each in \<open>[0, 1]\<close>. For a string that is not \<^verbatim>\<open>#\<close> followed by exactly six
  hexadecimal digits, of either case, it returns black, \<open>(0, 0, 0)\<close>. For a string
  \<^verbatim>\<open>#rrggbb\<close> it returns the value of each pair of digits divided by \<open>255\<close>; the value of
  a digit is \<open>digit_value\<close>, tabulated in \<open>digit_value_table\<close>.
\<close>

theorem hexColorToRGBPct_range_and_value:
  "(\<exists>x y z. hexColorToRGBPct str = (Num x, Num y, Num z)
       \<and> 0 \<le> x \<and> x \<le> 1 \<and> 0 \<le> y \<and> y \<le> 1 \<and> 0 \<le> z \<and> z \<le> 1)
   \<and> (\<not> (\<exists>ds. str = CHR ''#'' # ds \<and> length ds = 6 \<and> set ds \<subseteq> set ''0123456789abcdefABCDEF'')
        \<longrightarrow> hexColorToRGBPct str = (Num 0, Num 0, Num 0))
   \<and> (\<forall>c1 c2 c3 c4 c5 c6.
        str = [CHR ''#'', c1, c2, c3, c4, c5, c6]
        \<and> set [c1, c2, c3, c4, c5, c6] \<subseteq> set ''0123456789abcdefABCDEF''
        \<longrightarrow> hexColorToRGBPct str =
              (Num (real (16 * digit_value c1 + digit_value c2) / 255),
               Num (real (16 * digit_value c3 + digit_value c4) / 255),
               Num (real (16 * digit_value c5 + digit_value c6) / 255)))"
proof (intro conjI allI impI)
  show "\<exists>x y z. hexColorToRGBPct str = (Num x, Num y, Num z)
       \<and> 0 \<le> x \<and> x \<le> 1 \<and> 0 \<le> y \<and> y \<le> 1 \<and> 0 \<le> z \<and> z \<le> 1"
  proof (cases "match_sharp_hex6 str")
    case None
    then show ?thesis by (simp add: no_match_black)
  next
    case (Some ds)
    from match_Some [OF this] obtain c1 c2 c3 c4 c5 c6 where
      s: "str = [CHR ''#'', c1, c2, c3, c4, c5, c6]" and
      h: "is_hex_digit c1" "is_hex_digit c2" "is_hex_digit c3" "is_hex_digit c4" "is_hex_digit c5" "is_hex_digit c6"
      by auto
    show ?thesis
      unfolding s hex6_value [OF h]
      using byte_bounds [OF h(1,2)] byte_bounds [OF h(3,4)] byte_bounds [OF h(5,6)] by blast
  qed
next
  assume "\<not> (\<exists>ds. str = CHR ''#'' # ds \<and> length ds = 6 \<and> set ds \<subseteq> set ''0123456789abcdefABCDEF'')"
  then have "match_sharp_hex6 str = None" using match_iff [of str] by blast
  then show "hexColorToRGBPct str = (Num 0, Num 0, Num 0)" by (rule no_match_black)
next
  fix c1 c2 c3 c4 c5 c6
  assume a: "str = [CHR ''#'', c1, c2, c3, c4, c5, c6]
        \<and> set [c1, c2, c3, c4, c5, c6] \<subseteq> set ''0123456789abcdefABCDEF''"
  then have h: "is_hex_digit c1" "is_hex_digit c2" "is_hex_digit c3" "is_hex_digit c4" "is_hex_digit c5" "is_hex_digit c6"
    unfolding is_hex_digit_iff by simp_all
  from a hex6_value [OF h] show "hexColorToRGBPct str =
              (Num (real (16 * digit_value c1 + digit_value c2) / 255),
               Num (real (16 * digit_value c3 + digit_value c4) / 255),
               Num (real (16 * digit_value c5 + digit_value c6) / 255))" by simp
qed

text \<open>The theorem at the key colour of the demo, in both cases, and at a colour name.\<close>

theorem hexColorToRGBPct_range_and_value_witness:
  "hexColorToRGBPct ''#11ff05'' = (Num (17 / 255), Num 1, Num (5 / 255))
   \<and> hexColorToRGBPct ''#11FF05'' = (Num (17 / 255), Num 1, Num (5 / 255))
   \<and> hexColorToRGBPct ''green'' = (Num 0, Num 0, Num 0)"
proof -
  have "\<forall>c1 c2 c3 c4 c5 c6.
        ''#11ff05'' = [CHR ''#'', c1, c2, c3, c4, c5, c6]
        \<and> set [c1, c2, c3, c4, c5, c6] \<subseteq> set ''0123456789abcdefABCDEF''
        \<longrightarrow> hexColorToRGBPct ''#11ff05'' =
              (Num (real (16 * digit_value c1 + digit_value c2) / 255),
               Num (real (16 * digit_value c3 + digit_value c4) / 255),
               Num (real (16 * digit_value c5 + digit_value c6) / 255))"
    using hexColorToRGBPct_range_and_value [of "''#11ff05''"] by blast
  then have a: "hexColorToRGBPct ''#11ff05'' = (Num (17 / 255), Num 1, Num (5 / 255))"
    by (simp add: digit_value_def)
  have "\<forall>c1 c2 c3 c4 c5 c6.
        ''#11FF05'' = [CHR ''#'', c1, c2, c3, c4, c5, c6]
        \<and> set [c1, c2, c3, c4, c5, c6] \<subseteq> set ''0123456789abcdefABCDEF''
        \<longrightarrow> hexColorToRGBPct ''#11FF05'' =
              (Num (real (16 * digit_value c1 + digit_value c2) / 255),
               Num (real (16 * digit_value c3 + digit_value c4) / 255),
               Num (real (16 * digit_value c5 + digit_value c6) / 255))"
    using hexColorToRGBPct_range_and_value [of "''#11FF05''"] by blast
  then have b: "hexColorToRGBPct ''#11FF05'' = (Num (17 / 255), Num 1, Num (5 / 255))"
    by (simp add: digit_value_def)
  have "\<not> (\<exists>ds. ''green'' = CHR ''#'' # ds \<and> length ds = 6 \<and> set ds \<subseteq> set ''0123456789abcdefABCDEF'')"
    by simp
  with hexColorToRGBPct_range_and_value [of "''green''"] have c: "hexColorToRGBPct ''green'' = (Num 0, Num 0, Num 0)"
    by blast
  from a b c show ?thesis by blast
qed


section \<open>The cycle, field by field\<close>

lemma gl_fields [simp]:
  "stopped (gl s c) = stopped s"
  "useRequestVideoFrameCallback (gl s c) = useRequestVideoFrameCallback s"
  "requestVideoFrameCallbackIsAvailable (gl s c) = requestVideoFrameCallbackIsAvailable s"
  "videoWidth (gl s c) = videoWidth s" "videoHeight (gl s c) = videoHeight s"
  "canvasWidth (gl s c) = canvasWidth s" "canvasHeight (gl s c) = canvasHeight s"
  "gl_calls (gl s c) = gl_calls s @ [c]" "console (gl s c) = console s"
  "pending (gl s c) = pending s" "cycles (gl s c) = cycles s"
  by (simp_all add: gl_def)

lemma arm_fields [simp]:
  "stopped (arm s t) = stopped s"
  "useRequestVideoFrameCallback (arm s t) = useRequestVideoFrameCallback s"
  "requestVideoFrameCallbackIsAvailable (arm s t) = requestVideoFrameCallbackIsAvailable s"
  "videoWidth (arm s t) = videoWidth s" "videoHeight (arm s t) = videoHeight s"
  "canvasWidth (arm s t) = canvasWidth s" "canvasHeight (arm s t) = canvasHeight s"
  "gl_calls (arm s t) = gl_calls s" "console (arm s t) = console s"
  "pending (arm s t) = pending s @ [t]" "cycles (arm s t) = cycles s"
  by (simp_all add: arm_def)

lemma viewport_sync_fields [simp]:
  "stopped (viewport_sync s) = stopped s"
  "useRequestVideoFrameCallback (viewport_sync s) = useRequestVideoFrameCallback s"
  "requestVideoFrameCallbackIsAvailable (viewport_sync s) = requestVideoFrameCallbackIsAvailable s"
  "videoWidth (viewport_sync s) = videoWidth s" "videoHeight (viewport_sync s) = videoHeight s"
  "canvasWidth (viewport_sync s) = videoWidth s"
  "canvasHeight (viewport_sync s) = (if videoWidth s \<noteq> canvasWidth s then videoHeight s else canvasHeight s)"
  "gl_calls (viewport_sync s) =
     (if videoWidth s \<noteq> canvasWidth s
      then gl_calls s @ [Viewport 0 0 (videoWidth s) (videoHeight s)] else gl_calls s)"
  "console (viewport_sync s) = console s"
  "pending (viewport_sync s) = pending s" "cycles (viewport_sync s) = cycles s"
  by (simp_all add: viewport_sync_def)

lemma upload_and_draw_fields [simp]:
  "stopped (upload_and_draw gc s) = stopped s"
  "useRequestVideoFrameCallback (upload_and_draw gc s) = useRequestVideoFrameCallback s"
  "requestVideoFrameCallbackIsAvailable (upload_and_draw gc s) = requestVideoFrameCallbackIsAvailable s"
  "videoWidth (upload_and_draw gc s) = videoWidth s" "videoHeight (upload_and_draw gc s) = videoHeight s"
  "canvasWidth (upload_and_draw gc s) = canvasWidth s" "canvasHeight (upload_and_draw gc s) = canvasHeight s"
  "gl_calls (upload_and_draw gc s) = gl_calls s @ frame_calls (gc ()) (videoWidth s) (videoHeight s)"
  "console (upload_and_draw gc s) = console s"
  "pending (upload_and_draw gc s) = pending s" "cycles (upload_and_draw gc s) = cycles s"
  by (simp_all add: upload_and_draw_def frame_calls_def Let_def)

lemma arm_next_eq: "arm_next s = arm s (next_task s)"
  by (simp add: arm_next_def next_task_def)

lemma processFrame_stopped:
  "stopped s \<Longrightarrow> processFrame gc s = s\<lparr>cycles := cycles s + 1\<rparr>"
  by (simp add: processFrame_def Let_def)

lemma processFrame_running:
  "\<not> stopped s \<Longrightarrow>
     processFrame gc s =
       arm (upload_and_draw gc (viewport_sync (s\<lparr>cycles := cycles s + 1\<rparr>))) (next_task s)"
  by (simp add: processFrame_def Let_def arm_next_eq next_task_def)

lemma viewport_sync_cycles_upd:
  "viewport_sync (s\<lparr>cycles := n\<rparr>) = (viewport_sync s)\<lparr>cycles := n\<rparr>"
  by (simp add: viewport_sync_def gl_def)

lemma processFrame_fields:
  "stopped (processFrame gc s) = stopped s"
  "useRequestVideoFrameCallback (processFrame gc s) = useRequestVideoFrameCallback s"
  "requestVideoFrameCallbackIsAvailable (processFrame gc s) = requestVideoFrameCallbackIsAvailable s"
  "videoWidth (processFrame gc s) = videoWidth s" "videoHeight (processFrame gc s) = videoHeight s"
  "console (processFrame gc s) = console s"
  "cycles (processFrame gc s) = cycles s + 1"
  "canvasWidth (processFrame gc s) = (if stopped s then canvasWidth s else videoWidth s)"
  "canvasHeight (processFrame gc s) =
     (if \<not> stopped s \<and> videoWidth s \<noteq> canvasWidth s then videoHeight s else canvasHeight s)"
  "pending (processFrame gc s) = (if stopped s then pending s else pending s @ [next_task s])"
  "gl_calls (processFrame gc s) =
     (if stopped s then gl_calls s
      else gl_calls (viewport_sync s) @ frame_calls (gc ()) (videoWidth s) (videoHeight s))"
  by (cases "stopped s"; simp add: processFrame_stopped processFrame_running viewport_sync_cycles_upd)+


section \<open>Stopping\<close>

lemma stop_fields [simp]:
  "stopped (stop s) = True" "pending (stop s) = pending s" "cycles (stop s) = cycles s"
  "gl_calls (stop s) = gl_calls s" "canvasWidth (stop s) = canvasWidth s"
  "canvasHeight (stop s) = canvasHeight s" "videoWidth (stop s) = videoWidth s"
  "videoHeight (stop s) = videoHeight s"
  by (simp_all add: stop_def console_log_def)

lemma cleanup_fields [simp]:
  "stopped (cleanup s) = True" "pending (cleanup s) = pending s" "cycles (cleanup s) = cycles s"
  "gl_calls (cleanup s) = gl_calls s @ [DeleteProgram]" "canvasWidth (cleanup s) = canvasWidth s"
  "canvasHeight (cleanup s) = canvasHeight s" "videoWidth (cleanup s) = videoWidth s"
  "videoHeight (cleanup s) = videoHeight s"
  by (simp_all add: cleanup_def)

lemma draws_frame_calls: "filter is_draw (frame_calls c w h) = [DrawArrays 0 4]"
  by (simp add: frame_calls_def is_draw_def)

lemma viewports_frame_calls: "filter is_viewport (frame_calls c w h) = []"
  by (simp add: frame_calls_def is_viewport_def)

lemma draws_processFrame:
  "draws (processFrame gc s) = (if stopped s then draws s else draws s @ [DrawArrays 0 4])"
  by (simp add: draws_def processFrame_fields draws_frame_calls is_draw_def)

lemma viewports_processFrame:
  "viewports (processFrame gc s) =
     (if \<not> stopped s \<and> videoWidth s \<noteq> canvasWidth s
      then viewports s @ [Viewport 0 0 (videoWidth s) (videoHeight s)] else viewports s)"
  by (simp add: viewports_def processFrame_fields viewports_frame_calls is_viewport_def)

lemma draws_simps [simp]:
  "draws (stop s) = draws s" "draws (cleanup s) = draws s"
  "draws (arm s t) = draws s" "draws (s\<lparr>pending := p\<rparr>) = draws s"
  "draws (s\<lparr>videoWidth := w, videoHeight := h\<rparr>) = draws s"
  by (simp_all add: draws_def is_draw_def)

lemma viewports_simps [simp]:
  "viewports (stop s) = viewports s" "viewports (cleanup s) = viewports s"
  "viewports (arm s t) = viewports s" "viewports (s\<lparr>pending := p\<rparr>) = viewports s"
  "viewports (s\<lparr>videoWidth := w, videoHeight := h\<rparr>) = viewports s"
  by (simp_all add: viewports_def is_viewport_def)

lemma run_Nil [simp]: "run gc s [] = s"
  by (simp add: run_def)

lemma run_Cons [simp]: "run gc s (e # es) = run gc (step gc s e) es"
  by (simp add: run_def)

lemma run_append: "run gc s (es @ es') = run gc (run gc s es) es'"
  by (simp add: run_def)

text \<open>At most one callback is armed.\<close>

lemma length_remove_nth: "i < length xs \<Longrightarrow> length (take i xs @ drop (Suc i) xs) = length xs - 1"
  by simp

lemma step_pending_le:
  assumes "length (pending s) \<le> 1"
  shows "length (pending (step gc s e)) \<le> 1"
proof (cases e)
  case (Fire i)
  show ?thesis
  proof (cases "i < length (pending s)")
    case True
    with assms have "length (take i (pending s) @ drop (Suc i) (pending s)) = 0"
      using length_remove_nth [of i "pending s"] by simp
    then show ?thesis
      using True Fire by (simp add: step_def run_task_def processFrame_fields split: task.splits)
  next
    case False
    with assms Fire show ?thesis by (simp add: step_def)
  qed
next
  case (SourceResize w h)
  with assms show ?thesis by (simp add: step_def)
next
  case Cleanup
  with assms show ?thesis by (simp add: step_def)
qed

lemma run_pending_le:
  "length (pending s) \<le> 1 \<Longrightarrow> length (pending (run gc s es)) \<le> 1"
proof (induction es arbitrary: s)
  case Nil
  then show ?case by simp
next
  case (Cons e es)
  show ?case
    unfolding run_Cons by (rule Cons.IH [OF step_pending_le [OF Cons.prems]])
qed

lemma effect_Some:
  assumes "effect h = Inr (Some s0)"
  shows "s0 = processFrame getConfig
                ((console_log (new_wgl h (Program (link_status (driver h))) init_calls
                    (if \<not> compile_status (driver h) FRAGMENT_SHADER
                     then [ErrorMsg (shader_info_log (driver h) FRAGMENT_SHADER)] else []))
                    ''starting'')\<lparr>stopped := False\<rparr>)"
    and "canvas_present h" and "video_present h" and "webgl_available h"
    and "createShader_ok (driver h) VERTEX_SHADER" and "createShader_ok (driver h) FRAGMENT_SHADER"
    and "createProgram_ok (driver h)"
  using assms
  by (auto simp: effect_def init_def start_def startProcessing_def Let_def split: if_splits)

lemma effect_pending:
  assumes "effect h = Inr (Some s0)"
  shows "length (pending s0) \<le> 1"
  unfolding effect_Some(1) [OF assms]
  by (simp add: processFrame_fields console_log_def new_wgl_def)

text \<open>Once stopped, always stopped: no draw, and a cycle only uses up an armed callback.\<close>

lemma step_stopped:
  assumes "stopped s"
  shows "stopped (step gc s e)" and "draws (step gc s e) = draws s"
    and "cycles (step gc s e) + length (pending (step gc s e)) \<le> cycles s + length (pending s)"
proof -
  have "stopped (step gc s e) \<and> draws (step gc s e) = draws s
    \<and> cycles (step gc s e) + length (pending (step gc s e)) \<le> cycles s + length (pending s)"
  proof (cases e)
    case (Fire i)
    show ?thesis
    proof (cases "i < length (pending s)")
      case True
      then have "length (take i (pending s) @ drop (Suc i) (pending s)) = length (pending s) - 1"
        by (rule length_remove_nth)
      moreover from True have "0 < length (pending s)"
        by (cases "pending s") simp_all
      ultimately show ?thesis
        using True Fire assms
        by (auto simp: step_def run_task_def processFrame_fields draws_processFrame
            split: task.splits)
    next
      case False
      with assms Fire show ?thesis by (simp add: step_def)
    qed
  next
    case (SourceResize w h)
    with assms show ?thesis by (simp add: step_def)
  next
    case Cleanup
    with assms show ?thesis by (simp add: step_def)
  qed
  then show "stopped (step gc s e)" and "draws (step gc s e) = draws s"
    and "cycles (step gc s e) + length (pending (step gc s e)) \<le> cycles s + length (pending s)"
    by simp_all
qed

lemma run_stopped:
  assumes "stopped s"
  shows "stopped (run gc s es) \<and> draws (run gc s es) = draws s
    \<and> cycles (run gc s es) + length (pending (run gc s es)) \<le> cycles s + length (pending s)"
  using assms
proof (induction es arbitrary: s)
  case Nil
  then show ?case by simp
next
  case (Cons e es)
  from Cons.IH [OF step_stopped(1) [OF Cons.prems], of gc e] step_stopped(2,3) [OF Cons.prems, of gc e]
  show ?case by simp
qed

text \<open>
  Claim C2. Let the effect have started a pipeline and let any events follow; then
  \<^verbatim>\<open>stop()\<close> is called (alone, or in the clean-up of the effect). The state is stopped and
  stays so. Whatever events follow, no draw call is issued any more, and \<^verbatim>\<open>processFrame\<close>
  runs at most once more: the one cycle that was armed, which the first guard blocks. A
  cycle that finds the state stopped issues no draw and arms nothing.
\<close>

theorem stop_blocks_draws:
  assumes "effect h = Inr (Some s0)" and "s1 = run gc s0 es1"
    and "s2 = stop s1 \<or> s2 = cleanup s1"
  shows "stopped s2
    \<and> stopped (run gc' s2 es2)
    \<and> draws (run gc' s2 es2) = draws s1
    \<and> cycles (run gc' s2 es2) \<le> cycles s1 + 1
    \<and> (\<forall>s. stopped s \<longrightarrow> draws (processFrame gc' s) = draws s \<and> pending (processFrame gc' s) = pending s)"
proof -
  have p: "length (pending s1) \<le> 1"
    unfolding assms(2) by (rule run_pending_le [OF effect_pending [OF assms(1)]])
  from assms(3) have s2: "stopped s2" "draws s2 = draws s1" "cycles s2 = cycles s1" "pending s2 = pending s1"
    by auto
  from run_stopped [OF s2(1), of gc' es2] s2 p
  have "stopped (run gc' s2 es2)" "draws (run gc' s2 es2) = draws s1" "cycles (run gc' s2 es2) \<le> cycles s1 + 1"
    by simp_all
  moreover have "\<forall>s. stopped s \<longrightarrow> draws (processFrame gc' s) = draws s \<and> pending (processFrame gc' s) = pending s"
    by (simp add: draws_processFrame processFrame_fields)
  ultimately show ?thesis using s2(1) by blast
qed

lemma new_wgl_fields [simp]:
  "stopped (new_wgl h p calls out) = True"
  "useRequestVideoFrameCallback (new_wgl h p calls out) = True"
  "requestVideoFrameCallbackIsAvailable (new_wgl h p calls out) = rvfc_in_video h"
  "prog (new_wgl h p calls out) = p"
  "videoWidth (new_wgl h p calls out) = fst (video_size h)"
  "videoHeight (new_wgl h p calls out) = snd (video_size h)"
  "canvasWidth (new_wgl h p calls out) = fst (canvas_size h)"
  "canvasHeight (new_wgl h p calls out) = snd (canvas_size h)"
  "gl_calls (new_wgl h p calls out) = calls"
  "console (new_wgl h p calls out) = Log ''cvs vid'' # out"
  "pending (new_wgl h p calls out) = []" "cycles (new_wgl h p calls out) = 0"
  by (simp_all add: new_wgl_def)

lemma init_calls_no_draw: "filter is_draw init_calls = []"
  by (simp add: init_calls_def is_draw_def)

lemma init_calls_no_viewport: "filter is_viewport init_calls = []"
  by (simp add: init_calls_def is_viewport_def)

lemma start_eq:
  assumes "canvas_present h" and "video_present h"
  shows "start h w = processFrame getConfig ((console_log w ''starting'')\<lparr>stopped := False\<rparr>)"
  using assms by (simp add: start_def startProcessing_def Let_def)

lemma started_fields [simp]:
  "draws ((console_log w m)\<lparr>stopped := x\<rparr>) = draws w"
  "viewports ((console_log w m)\<lparr>stopped := x\<rparr>) = viewports w"
  "next_task ((console_log w m)\<lparr>stopped := x\<rparr>) = next_task w"
  by (simp_all add: draws_def viewports_def next_task_def console_log_def)

lemma start_fields:
  assumes "canvas_present h" and "video_present h"
  shows "stopped (start h w) = False"
    "videoWidth (start h w) = videoWidth w" "videoHeight (start h w) = videoHeight w"
    "canvasWidth (start h w) = videoWidth w"
    "canvasHeight (start h w) = (if videoWidth w \<noteq> canvasWidth w then videoHeight w else canvasHeight w)"
    "pending (start h w) = pending w @ [next_task w]"
    "cycles (start h w) = cycles w + 1"
    "draws (start h w) = draws w @ [DrawArrays 0 4]"
    "viewports (start h w) =
       (if videoWidth w \<noteq> canvasWidth w
        then viewports w @ [Viewport 0 0 (videoWidth w) (videoHeight w)] else viewports w)"
    "console (start h w) = console w @ [Log ''starting'']"
    "prog (start h w) = prog w"
proof -
  let ?w = "(console_log w ''starting'')\<lparr>stopped := False\<rparr>"
  have f: "stopped ?w = False" "videoWidth ?w = videoWidth w" "videoHeight ?w = videoHeight w"
    "canvasWidth ?w = canvasWidth w" "canvasHeight ?w = canvasHeight w" "pending ?w = pending w"
    "cycles ?w = cycles w" "console ?w = console w @ [Log ''starting'']" "prog ?w = prog w"
    by (simp_all add: console_log_def)
  have p: "prog (processFrame gc s) = prog s" for gc s
    by (simp add: processFrame_def Let_def arm_next_def arm_def upload_and_draw_def gl_def
        viewport_sync_def)
  show "stopped (start h w) = False"
    "videoWidth (start h w) = videoWidth w" "videoHeight (start h w) = videoHeight w"
    "canvasWidth (start h w) = videoWidth w"
    "canvasHeight (start h w) = (if videoWidth w \<noteq> canvasWidth w then videoHeight w else canvasHeight w)"
    "pending (start h w) = pending w @ [next_task w]"
    "cycles (start h w) = cycles w + 1"
    "draws (start h w) = draws w @ [DrawArrays 0 4]"
    "viewports (start h w) =
       (if videoWidth w \<noteq> canvasWidth w
        then viewports w @ [Viewport 0 0 (videoWidth w) (videoHeight w)] else viewports w)"
    "console (start h w) = console w @ [Log ''starting'']"
    "prog (start h w) = prog w"
    unfolding start_eq [OF assms]
    by (simp_all only: processFrame_fields draws_processFrame viewports_processFrame f
        started_fields p if_False if_True not_False_eq_True simp_thms)
qed

lemma effect_h_demo: "effect h_demo = Inr (Some s_demo)"
  by (simp add: effect_def init_def h_demo_def driver_ok_def s_demo_def)

lemma effect_h_fallback: "effect h_fallback = Inr (Some s_fallback)"
  by (simp add: effect_def init_def h_fallback_def h_demo_def driver_ok_def s_fallback_def)

lemma s_demo_fields:
  "stopped s_demo = False" "videoWidth s_demo = 0" "videoHeight s_demo = 0"
  "canvasWidth s_demo = 0" "canvasHeight s_demo = 0" "pending s_demo = [VideoFrameCallback]"
  "cycles s_demo = 1" "draws s_demo = [DrawArrays 0 4]" "viewports s_demo = [Viewport 0 0 0 0]"
  unfolding s_demo_def
  by (simp_all add: start_fields h_demo_def next_task_def draws_def [of "new_wgl _ _ _ _"]
      viewports_def [of "new_wgl _ _ _ _"] init_calls_no_draw init_calls_no_viewport)

lemma s_fallback_fields:
  "stopped s_fallback = False" "pending s_fallback = [Timeout]"
  "cycles s_fallback = 1" "draws s_fallback = [DrawArrays 0 4]"
  unfolding s_fallback_def
  by (simp_all add: start_fields h_demo_def h_fallback_def next_task_def
      draws_def [of "new_wgl _ _ _ _"] init_calls_no_draw)

text \<open>One event, field by field.\<close>

lemma step_SourceResize [simp]:
  "step gc s (SourceResize w h) = s\<lparr>videoWidth := w, videoHeight := h\<rparr>"
  by (simp add: step_def)

lemma step_Cleanup [simp]: "step gc s Cleanup = cleanup s"
  by (simp add: step_def)

lemma step_Fire_single:
  assumes "pending s = [t]"
  shows "step gc s (Fire 0) = run_task gc t (s\<lparr>pending := []\<rparr>)"
  using assms by (simp add: step_def)

text \<open>
  The theorem in a browser without \<^verbatim>\<open>requestVideoFrameCallback\<close>: the timeout has fired
  and the animation frame is pending when \<^verbatim>\<open>stop()\<close> is called.
\<close>

theorem stop_blocks_draws_witness:
  "stopped (stop (run getConfig s_fallback [Fire 0]))
   \<and> draws (run getConfig (stop (run getConfig s_fallback [Fire 0])) [Fire 0, Fire 0, Fire 0])
       = [DrawArrays 0 4]
   \<and> cycles (run getConfig (stop (run getConfig s_fallback [Fire 0])) [Fire 0, Fire 0, Fire 0]) \<le> 2
   \<and> draws (processFrame getConfig (stop s_fallback)) = [DrawArrays 0 4]"
proof -
  have a: "step getConfig s_fallback (Fire 0) = arm (s_fallback\<lparr>pending := []\<rparr>) AnimationFrame"
    by (simp add: step_Fire_single [OF s_fallback_fields(2)] run_task_def)
  have d: "draws (run getConfig s_fallback [Fire 0]) = [DrawArrays 0 4]"
    and c: "cycles (run getConfig s_fallback [Fire 0]) = 1"
    by (simp_all add: a s_fallback_fields)
  have g: "stopped (stop s_fallback)" "draws (stop s_fallback) = [DrawArrays 0 4]"
    by (simp_all add: s_fallback_fields)
  from stop_blocks_draws [OF effect_h_fallback refl disjI1 [OF refl], of getConfig "[Fire 0]" getConfig "[Fire 0, Fire 0, Fire 0]"]
  show ?thesis unfolding d c using g by simp
qed


section \<open>Viewport synchronisation\<close>

text \<open>One event and the size of the render target.\<close>

lemma step_sync:
  assumes "fires_cycle s e" and "\<not> stopped s" and "videoWidth s \<noteq> canvasWidth s"
  shows "canvasWidth (step gc s e) = videoWidth s" and "canvasHeight (step gc s e) = videoHeight s"
    and "viewports (step gc s e) = viewports s @ [Viewport 0 0 (videoWidth s) (videoHeight s)]"
proof -
  from assms(1) obtain i where e: "e = Fire i" and i: "i < length (pending s)"
    and t: "pending s ! i \<noteq> Timeout"
    by (cases e) (simp_all add: fires_cycle_def)
  let ?s = "s\<lparr>pending := take i (pending s) @ drop (Suc i) (pending s)\<rparr>"
  have st: "step gc s e = processFrame gc ?s"
    using e i t by (simp add: step_def run_task_def split: task.splits)
  show "canvasWidth (step gc s e) = videoWidth s" and "canvasHeight (step gc s e) = videoHeight s"
    and "viewports (step gc s e) = viewports s @ [Viewport 0 0 (videoWidth s) (videoHeight s)]"
    unfolding st using assms(2,3) by (simp_all add: processFrame_fields viewports_processFrame)
qed

lemma step_no_sync:
  assumes "\<not> (fires_cycle s e \<and> \<not> stopped s \<and> videoWidth s \<noteq> canvasWidth s)"
  shows "canvasWidth (step gc s e) = canvasWidth s" and "canvasHeight (step gc s e) = canvasHeight s"
    and "viewports (step gc s e) = viewports s"
proof -
  have "canvasWidth (step gc s e) = canvasWidth s \<and> canvasHeight (step gc s e) = canvasHeight s
    \<and> viewports (step gc s e) = viewports s"
  proof (cases e)
    case (Fire i)
    show ?thesis
    proof (cases "i < length (pending s)")
      case True
      with assms Fire show ?thesis
        by (auto simp: step_def run_task_def fires_cycle_def processFrame_fields
            viewports_processFrame split: task.splits)
    next
      case False
      with Fire show ?thesis by (simp add: step_def)
    qed
  next
    case (SourceResize w h)
    then show ?thesis by simp
  next
    case Cleanup
    then show ?thesis by simp
  qed
  then show "canvasWidth (step gc s e) = canvasWidth s" and "canvasHeight (step gc s e) = canvasHeight s"
    and "viewports (step gc s e) = viewports s"
    by simp_all
qed

text \<open>
  Over a run, a resize is paid for by a difference of the widths at the start or by a change
  of the source's size.
\<close>

lemma step_width_debt:
  "length (viewports (step gc s e)) + width_debt (step gc s e)
     \<le> length (viewports s) + width_debt s + (if is_source_resize e then 1 else 0)"
proof (cases e)
  case (Fire i)
  show ?thesis
  proof (cases "i < length (pending s)")
    case True
    with Fire show ?thesis
      by (auto simp: step_def run_task_def width_debt_def is_source_resize_def processFrame_fields
          viewports_processFrame split: task.splits)
  next
    case False
    with Fire show ?thesis by (simp add: step_def is_source_resize_def)
  qed
next
  case (SourceResize w h)
  then show ?thesis by (simp add: width_debt_def is_source_resize_def)
next
  case Cleanup
  then show ?thesis by (simp add: width_debt_def is_source_resize_def)
qed

lemma run_width_debt:
  "length (viewports (run gc s es)) + width_debt (run gc s es)
     \<le> length (viewports s) + width_debt s + length (filter is_source_resize es)"
proof (induction es arbitrary: s)
  case Nil
  then show ?case by simp
next
  case (Cons e es)
  from Cons.IH [of "step gc s e"] step_width_debt [of gc s e]
  show ?case by (cases "is_source_resize e") simp_all
qed

text \<open>
  Claim C3, amended. The size of the render target and the viewport change only in a
  running cycle, and exactly when the native width of the source differs from the width of
  the render target (the heights are not compared): that cycle sets the width and the height
  of the render target to those of the source and the viewport to the full new size at the
  origin, once. Every other event, and a cycle that finds the widths equal, leaves the size
  and the viewport as they are. Over any run the number of resizes is at most the number of
  changes of the source's size in it, plus one when the widths differ at its start: never
  one per cycle.
\<close>

theorem viewport_sync_on_width_change:
  "(fires_cycle s e \<and> \<not> stopped s \<and> videoWidth s \<noteq> canvasWidth s \<longrightarrow>
      canvasWidth (step gc s e) = videoWidth s \<and> canvasHeight (step gc s e) = videoHeight s
      \<and> viewports (step gc s e) = viewports s @ [Viewport 0 0 (videoWidth s) (videoHeight s)])
   \<and> (\<not> (fires_cycle s e \<and> \<not> stopped s \<and> videoWidth s \<noteq> canvasWidth s) \<longrightarrow>
      canvasWidth (step gc s e) = canvasWidth s \<and> canvasHeight (step gc s e) = canvasHeight s
      \<and> viewports (step gc s e) = viewports s)
   \<and> length (viewports (run gc s es))
       \<le> length (viewports s) + (if videoWidth s \<noteq> canvasWidth s then 1 else 0)
          + length (filter is_source_resize es)"
proof -
  have "length (viewports (run gc s es))
       \<le> length (viewports s) + (if videoWidth s \<noteq> canvasWidth s then 1 else 0)
          + length (filter is_source_resize es)"
    using run_width_debt [of gc s es] by (simp add: width_debt_def split: if_splits)
  then show ?thesis
    using step_sync [of s e gc] step_no_sync [of s e gc] by blast
qed

text \<open>The first cycles of the demo.\<close>

lemma s_demo_resized_fields:
  "fires_cycle (s_demo\<lparr>videoWidth := w, videoHeight := h\<rparr>) (Fire 0)"
  "stopped (s_demo\<lparr>videoWidth := w, videoHeight := h\<rparr>) = False"
  "canvasWidth (s_demo\<lparr>videoWidth := w, videoHeight := h\<rparr>) = 0"
  "canvasHeight (s_demo\<lparr>videoWidth := w, videoHeight := h\<rparr>) = 0"
  "viewports (s_demo\<lparr>videoWidth := w, videoHeight := h\<rparr>) = [Viewport 0 0 0 0]"
  by (simp_all add: fires_cycle_def s_demo_fields)

text \<open>
  The theorem on the demo: the cycle after the video reports \<open>640 \<times> 480\<close> resizes once,
  and cycles without a change of the source do not resize.
\<close>

theorem viewport_sync_on_width_change_witness:
  "viewports (run getConfig s_demo [SourceResize 640 480, Fire 0])
     = [Viewport 0 0 0 0, Viewport 0 0 640 480]
   \<and> canvasWidth (run getConfig s_demo [SourceResize 640 480, Fire 0]) = 640
   \<and> canvasHeight (run getConfig s_demo [SourceResize 640 480, Fire 0]) = 480
   \<and> viewports (run getConfig s_demo [Fire 0]) = [Viewport 0 0 0 0]
   \<and> length (viewports (run getConfig s_demo [Fire 0, Fire 0, Fire 0])) \<le> 1"
proof -
  let ?s = "s_demo\<lparr>videoWidth := 640, videoHeight := 480\<rparr>"
  have a: "fires_cycle ?s (Fire 0) \<and> \<not> stopped ?s \<and> videoWidth ?s \<noteq> canvasWidth ?s"
    by (simp add: s_demo_resized_fields)
  have b: "\<not> (fires_cycle s_demo (Fire 0) \<and> \<not> stopped s_demo \<and> videoWidth s_demo \<noteq> canvasWidth s_demo)"
    by (simp add: s_demo_fields)
  from viewport_sync_on_width_change [of ?s "Fire 0" getConfig "[]"] a
  have 1: "canvasWidth (step getConfig ?s (Fire 0)) = 640"
    "canvasHeight (step getConfig ?s (Fire 0)) = 480"
    "viewports (step getConfig ?s (Fire 0)) = [Viewport 0 0 0 0, Viewport 0 0 640 480]"
    by (simp_all add: s_demo_resized_fields s_demo_fields)
  from viewport_sync_on_width_change [of s_demo "Fire 0" getConfig "[Fire 0, Fire 0, Fire 0]"] b
  have 2: "viewports (step getConfig s_demo (Fire 0)) = [Viewport 0 0 0 0]"
    "length (viewports (run getConfig s_demo [Fire 0, Fire 0, Fire 0])) \<le> 1"
    by (simp_all add: s_demo_fields is_source_resize_def)
  from 1 2 show ?thesis by simp
qed

lemma prog_processFrame: "prog (processFrame gc s) = prog s"
  by (simp add: processFrame_def Let_def arm_next_def arm_def upload_and_draw_def gl_def
      viewport_sync_def)

lemma after_h_demo: "after h_demo gc es = Inr (Some (run gc s_demo es))"
  by (simp add: after_def effect_h_demo)

lemma s_demo_flags:
  "useRequestVideoFrameCallback s_demo = True" "requestVideoFrameCallbackIsAvailable s_demo = True"
  unfolding s_demo_def start_eq [of h_demo, unfolded h_demo_def, simplified, folded h_demo_def]
  by (simp_all add: processFrame_fields console_log_def h_demo_def)

text \<open>
  Claim C3 as stated fails: when the video changes from \<open>640 \<times> 480\<close> to \<open>640 \<times> 360\<close>,
  the next cycle does not resize, and the render target keeps the height \<open>480\<close>.
\<close>

theorem height_change_not_synced:
  "observed viewports (after h_demo getConfig [SourceResize 640 480, Fire 0])
     = Some [Viewport 0 0 0 0, Viewport 0 0 640 480]
   \<and> observed viewports (after h_demo getConfig height_change)
     = Some [Viewport 0 0 0 0, Viewport 0 0 640 480]
   \<and> observed videoHeight (after h_demo getConfig height_change) = Some 360
   \<and> observed canvasHeight (after h_demo getConfig height_change) = Some 480"
  by (simp add: after_h_demo observed_def height_change_def step_def run_task_def
      processFrame_fields viewports_processFrame s_demo_fields s_demo_flags next_task_def)


section \<open>Initialisation, configuration and the size of the source\<close>

lemma init_throws:
  assumes "\<not> createShader_ok d VERTEX_SHADER \<or> \<not> createShader_ok d FRAGMENT_SHADER
           \<or> \<not> createProgram_ok d"
  shows "\<exists>e out. init d = Inl (e, out)"
  using assms by (auto simp: init_def Let_def)

lemma init_returns:
  assumes "createShader_ok d VERTEX_SHADER" and "createShader_ok d FRAGMENT_SHADER"
    and "createProgram_ok d"
  shows "init d = Inr (Program (link_status d), init_calls,
           if \<not> compile_status d FRAGMENT_SHADER
           then [ErrorMsg (shader_info_log d FRAGMENT_SHADER)] else [])"
  using assms by (simp add: init_def Let_def)

text \<open>
  Claim C4, amended. With both elements present: when the canvas gives no WebGL context, or
  a shader object or the program object is not created, the effect throws an error to its
  caller, and no pipeline is started. When they are created, the effect starts the pipeline
  whatever the compile status and the link status are: the state is running, the first draw
  call is issued, and the program is used as it is. A fragment shader that does not compile
  is reported on the console, with the info log, and not to the caller.
\<close>

theorem init_failure_reporting:
  assumes "canvas_present h" and "video_present h"
  shows "(\<not> webgl_available h \<or> \<not> createShader_ok (driver h) VERTEX_SHADER
            \<or> \<not> createShader_ok (driver h) FRAGMENT_SHADER \<or> \<not> createProgram_ok (driver h)
          \<longrightarrow> (\<exists>e out. effect h = Inl (e, out)))
       \<and> (webgl_available h \<and> createShader_ok (driver h) VERTEX_SHADER
            \<and> createShader_ok (driver h) FRAGMENT_SHADER \<and> createProgram_ok (driver h)
          \<longrightarrow> (\<exists>s. effect h = Inr (Some s) \<and> \<not> stopped s \<and> draws s = [DrawArrays 0 4]
                  \<and> prog s = Program (link_status (driver h))
                  \<and> (\<not> compile_status (driver h) FRAGMENT_SHADER
                       \<longrightarrow> ErrorMsg (shader_info_log (driver h) FRAGMENT_SHADER) \<in> set (console s))))"
proof (intro conjI impI)
  assume a: "\<not> webgl_available h \<or> \<not> createShader_ok (driver h) VERTEX_SHADER
            \<or> \<not> createShader_ok (driver h) FRAGMENT_SHADER \<or> \<not> createProgram_ok (driver h)"
  show "\<exists>e out. effect h = Inl (e, out)"
  proof (cases "webgl_available h")
    case False
    with assms show ?thesis by (simp add: effect_def)
  next
    case True
    with a init_throws [of "driver h"] obtain e out where "init (driver h) = Inl (e, out)"
      by blast
    with assms True show ?thesis by (simp add: effect_def)
  qed
next
  assume a: "webgl_available h \<and> createShader_ok (driver h) VERTEX_SHADER
            \<and> createShader_ok (driver h) FRAGMENT_SHADER \<and> createProgram_ok (driver h)"
  let ?out = "if \<not> compile_status (driver h) FRAGMENT_SHADER
           then [ErrorMsg (shader_info_log (driver h) FRAGMENT_SHADER)] else []"
  let ?s = "start h (new_wgl h (Program (link_status (driver h))) init_calls ?out)"
  from a have i: "init (driver h) = Inr (Program (link_status (driver h)), init_calls, ?out)"
    by (simp add: init_returns)
  have e: "effect h = Inr (Some ?s)"
    using assms a by (simp add: effect_def i del: if_not_P)
  have "\<not> stopped ?s" "draws ?s = [DrawArrays 0 4]" "prog ?s = Program (link_status (driver h))"
    "\<not> compile_status (driver h) FRAGMENT_SHADER
       \<longrightarrow> ErrorMsg (shader_info_log (driver h) FRAGMENT_SHADER) \<in> set (console ?s)"
    by (simp_all add: start_fields [OF assms] draws_def [of "new_wgl _ _ _ _"] init_calls_no_draw)
  with e show "\<exists>s. effect h = Inr (Some s) \<and> \<not> stopped s \<and> draws s = [DrawArrays 0 4]
                  \<and> prog s = Program (link_status (driver h))
                  \<and> (\<not> compile_status (driver h) FRAGMENT_SHADER
                       \<longrightarrow> ErrorMsg (shader_info_log (driver h) FRAGMENT_SHADER) \<in> set (console s))"
    by blast
qed

lemma effect_h_bad:
  "effect h_bad =
     Inr (Some (start h_bad (new_wgl h_bad (Program False) init_calls
                  [ErrorMsg ''ERROR: 0:1: syntax error''])))"
  by (simp add: effect_def init_def h_bad_def h_demo_def driver_bad_def)

lemma h_bad_present: "canvas_present h_bad" "video_present h_bad"
  by (simp_all add: h_bad_def h_demo_def)

text \<open>
  Claim C4 as stated fails: the fragment shader does not compile and the program does not
  link, and the effect throws nothing, the pipeline is running and a draw call is issued.
\<close>

theorem compile_failure_still_runs:
  "compile_status (driver h_bad) FRAGMENT_SHADER = False
   \<and> link_status (driver h_bad) = False
   \<and> isl (effect h_bad) = False
   \<and> observed stopped (effect h_bad) = Some False
   \<and> observed draws (effect h_bad) = Some [DrawArrays 0 4]"
  by (simp add: effect_h_bad observed_def start_fields [OF h_bad_present]
      draws_def [of "new_wgl _ _ _ _"] init_calls_no_draw)
    (simp add: h_bad_def h_demo_def driver_bad_def)

text \<open>
  The theorem on a driver that creates no program object, and on one where the fragment
  shader does not compile and the program does not link.
\<close>

theorem init_failure_reporting_witness:
  "isl (effect h_no_program)
   \<and> observed stopped (effect h_bad) = Some False
   \<and> observed draws (effect h_bad) = Some [DrawArrays 0 4]
   \<and> observed prog (effect h_bad) = Some (Program False)"
proof -
  have p: "canvas_present h_no_program" "video_present h_no_program"
    "\<not> createProgram_ok (driver h_no_program)"
    by (simp_all add: h_no_program_def h_demo_def driver_no_program_def driver_ok_def)
  from init_failure_reporting [OF p(1,2)] p(3) have 1: "isl (effect h_no_program)"
    by auto
  have q: "webgl_available h_bad \<and> createShader_ok (driver h_bad) VERTEX_SHADER
            \<and> createShader_ok (driver h_bad) FRAGMENT_SHADER \<and> createProgram_ok (driver h_bad)"
    "link_status (driver h_bad) = False"
    by (simp_all add: h_bad_def h_demo_def driver_bad_def)
  from init_failure_reporting [OF h_bad_present] q have 2: "observed stopped (effect h_bad) = Some False
   \<and> observed draws (effect h_bad) = Some [DrawArrays 0 4]
   \<and> observed prog (effect h_bad) = Some (Program False)"
    by (auto simp: observed_def)
  from 1 2 show ?thesis by simp
qed

text \<open>
  Claim C5, amended. In a cycle of a running pipeline whose configuration is made from a
  key colour string and three thresholds, the draw proceeds and the next cycle is armed,
  whatever the values are. A key colour string that is not \<^verbatim>\<open>#\<close> followed by six
  hexadecimal digits is replaced by black. The thresholds are not replaced: the similarity,
  the smoothness and the spill go to the shader as the configuration gives them, also when
  they are zero or negative.
\<close>

theorem config_values_passed_on:
  assumes "\<not> stopped s"
  shows "gl_calls (processFrame (\<lambda>_. config_of (RawConfig kc sim sm sp)) s) =
           gl_calls (viewport_sync s) @
           [TexImage2D (videoWidth s) (videoHeight s), Uniform1i texLoc 0,
            Uniform1f texWidthLoc (Num (real (videoWidth s))),
            Uniform1f texHeightLoc (Num (real (videoHeight s))),
            Uniform3f keyColorLoc (fst (hexColorToRGBPct kc)) (fst (snd (hexColorToRGBPct kc)))
              (snd (snd (hexColorToRGBPct kc))),
            Uniform1f similarityLoc sim, Uniform1f smoothnessLoc sm, Uniform1f spillLoc sp,
            DrawArrays 0 4]
       \<and> (\<not> (\<exists>ds. kc = CHR ''#'' # ds \<and> length ds = 6 \<and> set ds \<subseteq> set ''0123456789abcdefABCDEF'')
            \<longrightarrow> hexColorToRGBPct kc = (Num 0, Num 0, Num 0))
       \<and> pending (processFrame (\<lambda>_. config_of (RawConfig kc sim sm sp)) s) = pending s @ [next_task s]
       \<and> \<not> stopped (processFrame (\<lambda>_. config_of (RawConfig kc sim sm sp)) s)"
proof -
  have "\<not> (\<exists>ds. kc = CHR ''#'' # ds \<and> length ds = 6 \<and> set ds \<subseteq> set ''0123456789abcdefABCDEF'')
            \<longrightarrow> hexColorToRGBPct kc = (Num 0, Num 0, Num 0)"
    using match_iff [of kc] no_match_black [of kc] by blast
  moreover have "gl_calls (processFrame (\<lambda>_. config_of (RawConfig kc sim sm sp)) s) =
           gl_calls (viewport_sync s) @
           [TexImage2D (videoWidth s) (videoHeight s), Uniform1i texLoc 0,
            Uniform1f texWidthLoc (Num (real (videoWidth s))),
            Uniform1f texHeightLoc (Num (real (videoHeight s))),
            Uniform3f keyColorLoc (fst (hexColorToRGBPct kc)) (fst (snd (hexColorToRGBPct kc)))
              (snd (snd (hexColorToRGBPct kc))),
            Uniform1f similarityLoc sim, Uniform1f smoothnessLoc sm, Uniform1f spillLoc sp,
            DrawArrays 0 4]"
    using assms by (simp add: processFrame_fields frame_calls_def config_of_def)
  ultimately show ?thesis
    using assms by (simp add: processFrame_fields)
qed

text \<open>
  Claim C5 as stated fails: \<^verbatim>\<open>startProcessing\<close> with a provider whose snapshot has the
  smoothness \<open>0\<close> and the spill \<open>-1\<close> passes these values to the shader, and draws.
\<close>

theorem nonpositive_thresholds_not_replaced:
  "uniform1f_values smoothnessLoc (startProcessing bad_getConfig wgl_started) = [Num 0]
   \<and> uniform1f_values spillLoc (startProcessing bad_getConfig wgl_started) = [Num (- 1)]
   \<and> draws (startProcessing bad_getConfig wgl_started) = [DrawArrays 0 4]"
proof -
  have w: "stopped wgl_started = False" "videoWidth wgl_started = 0" "videoHeight wgl_started = 0"
    "canvasWidth wgl_started = 300" "gl_calls wgl_started = init_calls"
    by (simp_all add: wgl_started_def console_log_def h_demo_def)
  have g: "gl_calls (startProcessing bad_getConfig wgl_started)
             = init_calls @ [Viewport 0 0 0 0] @ frame_calls (bad_getConfig ()) 0 0"
    by (simp add: startProcessing_def processFrame_fields w)
  show ?thesis
    unfolding uniform1f_values_def draws_def g
    by (simp add: init_calls_def frame_calls_def bad_getConfig_def config_of_def is_draw_def)
qed

text \<open>The theorem for the second cycle of the demo, under such a configuration.\<close>

theorem config_values_passed_on_witness:
  "\<not> stopped s_demo
   \<and> hexColorToRGBPct ''chroma green'' = (Num 0, Num 0, Num 0)
   \<and> gl_calls (processFrame (\<lambda>_. config_of (RawConfig ''chroma green'' (Num 0.4) (Num 0) (Num (- 1)))) s_demo)
       = gl_calls s_demo @
         [TexImage2D 0 0, Uniform1i texLoc 0, Uniform1f texWidthLoc (Num 0),
          Uniform1f texHeightLoc (Num 0), Uniform3f keyColorLoc (Num 0) (Num 0) (Num 0),
          Uniform1f similarityLoc (Num 0.4), Uniform1f smoothnessLoc (Num 0),
          Uniform1f spillLoc (Num (- 1)), DrawArrays 0 4]
   \<and> pending (processFrame (\<lambda>_. config_of (RawConfig ''chroma green'' (Num 0.4) (Num 0) (Num (- 1)))) s_demo)
       = [VideoFrameCallback, VideoFrameCallback]"
proof -
  have a: "\<not> stopped s_demo"
    by (simp add: s_demo_fields)
  have b: "\<not> (\<exists>ds. ''chroma green'' = CHR ''#'' # ds \<and> length ds = 6
             \<and> set ds \<subseteq> set ''0123456789abcdefABCDEF'')"
    by simp
  have v: "gl_calls (viewport_sync s_demo) = gl_calls s_demo"
    by (simp add: s_demo_fields)
  from config_values_passed_on [OF a, of "''chroma green''" "Num 0.4" "Num 0" "Num (- 1)"] b
  have k: "hexColorToRGBPct ''chroma green'' = (Num 0, Num 0, Num 0)"
    by blast
  from config_values_passed_on [OF a, of "''chroma green''" "Num 0.4" "Num 0" "Num (- 1)"] a k
  show ?thesis
    unfolding v by (simp add: s_demo_fields s_demo_flags next_task_def)
qed

text \<open>
  Claim C6, amended. A cycle of a running pipeline that finds the source with a zero width
  or height is not skipped. The viewport is synchronised as in any cycle: when the widths
  differ, the render target takes the width and the height that the source reports and the
  viewport is set to them. The frame is uploaded, the uniforms are set from the
  configuration, the draw call is issued, and the next cycle is armed, the state still
  running.
\<close>

theorem zero_size_cycle_draws:
  assumes "\<not> stopped s" and "videoWidth s = 0 \<or> videoHeight s = 0"
  shows "gl_calls (processFrame gc s) =
           gl_calls s
           @ (if videoWidth s \<noteq> canvasWidth s
              then [Viewport 0 0 (videoWidth s) (videoHeight s)] else [])
           @ [TexImage2D (videoWidth s) (videoHeight s), Uniform1i texLoc 0,
              Uniform1f texWidthLoc (Num (real (videoWidth s))),
              Uniform1f texHeightLoc (Num (real (videoHeight s))),
              Uniform3f keyColorLoc (fst (keycolor (gc ()))) (fst (snd (keycolor (gc ()))))
                (snd (snd (keycolor (gc ())))),
              Uniform1f similarityLoc (LiveTweakableParams.similarity (gc ())),
              Uniform1f smoothnessLoc (LiveTweakableParams.smoothness (gc ())),
              Uniform1f spillLoc (LiveTweakableParams.spill (gc ())),
              DrawArrays 0 4]
       \<and> canvasWidth (processFrame gc s) = videoWidth s
       \<and> canvasHeight (processFrame gc s) =
           (if videoWidth s \<noteq> canvasWidth s then videoHeight s else canvasHeight s)
       \<and> videoWidth (processFrame gc s) = videoWidth s
       \<and> videoHeight (processFrame gc s) = videoHeight s
       \<and> viewports (processFrame gc s) =
           (if videoWidth s \<noteq> canvasWidth s
            then viewports s @ [Viewport 0 0 (videoWidth s) (videoHeight s)] else viewports s)
       \<and> draws (processFrame gc s) = draws s @ [DrawArrays 0 4]
       \<and> pending (processFrame gc s) = pending s @ [next_task s]
       \<and> cycles (processFrame gc s) = cycles s + 1
       \<and> \<not> stopped (processFrame gc s)"
  using assms(1)
  by (simp add: processFrame_fields viewports_processFrame draws_processFrame frame_calls_def)

text \<open>
  Claim C6 as stated fails: the video reports \<open>0 \<times> 0\<close> when the effect runs, and the
  first cycle resizes the canvas to \<open>0 \<times> 0\<close>, sets the viewport and draws; so does
  the second cycle draw.
\<close>

theorem zero_size_first_cycle_draws:
  "video_size h_demo = (0, 0)
   \<and> observed viewports (effect h_demo) = Some [Viewport 0 0 0 0]
   \<and> observed canvasWidth (effect h_demo) = Some 0
   \<and> observed canvasHeight (effect h_demo) = Some 0
   \<and> observed draws (effect h_demo) = Some [DrawArrays 0 4]
   \<and> observed videoWidth (after h_demo getConfig [Fire 0]) = Some 0
   \<and> observed draws (after h_demo getConfig [Fire 0]) = Some [DrawArrays 0 4, DrawArrays 0 4]"
  by (simp add: effect_h_demo after_h_demo observed_def s_demo_fields step_def run_task_def
      processFrame_fields draws_processFrame)
    (simp add: h_demo_def)

text \<open>
  The theorem for the first cycle of the demo, which finds the canvas at its default size
  and resizes it to \<open>0 \<times> 0\<close>, and for the second, which finds the widths equal.
\<close>

lemma wgl_started_fields:
  "stopped wgl_started = False" "videoWidth wgl_started = 0" "videoHeight wgl_started = 0"
  "canvasWidth wgl_started = 300" "canvasHeight wgl_started = 150"
  "gl_calls wgl_started = init_calls" "pending wgl_started = []" "cycles wgl_started = 0"
  "useRequestVideoFrameCallback wgl_started = True"
  "requestVideoFrameCallbackIsAvailable wgl_started = True"
  by (simp_all add: wgl_started_def console_log_def h_demo_def)

theorem zero_size_cycle_draws_witness:
  "\<not> stopped wgl_started \<and> videoWidth wgl_started = 0
   \<and> canvasWidth wgl_started = 300 \<and> canvasHeight wgl_started = 150
   \<and> gl_calls (processFrame getConfig wgl_started) =
       init_calls @
       [Viewport 0 0 0 0, TexImage2D 0 0, Uniform1i texLoc 0,
        Uniform1f texWidthLoc (Num 0), Uniform1f texHeightLoc (Num 0),
        Uniform3f keyColorLoc (Num (17 / 255)) (Num 1) (Num (5 / 255)),
        Uniform1f similarityLoc (Num 0.4), Uniform1f smoothnessLoc (Num 0.08),
        Uniform1f spillLoc (Num 0.1), DrawArrays 0 4]
   \<and> canvasWidth (processFrame getConfig wgl_started) = 0
   \<and> canvasHeight (processFrame getConfig wgl_started) = 0
   \<and> pending (processFrame getConfig wgl_started) = [VideoFrameCallback]
   \<and> \<not> stopped (processFrame getConfig wgl_started)
   \<and> gl_calls (processFrame getConfig s_demo) =
       gl_calls s_demo @
       [TexImage2D 0 0, Uniform1i texLoc 0,
        Uniform1f texWidthLoc (Num 0), Uniform1f texHeightLoc (Num 0),
        Uniform3f keyColorLoc (Num (17 / 255)) (Num 1) (Num (5 / 255)),
        Uniform1f similarityLoc (Num 0.4), Uniform1f smoothnessLoc (Num 0.08),
        Uniform1f spillLoc (Num 0.1), DrawArrays 0 4]"
proof -
  have a: "\<not> stopped wgl_started" "videoWidth wgl_started = 0 \<or> videoHeight wgl_started = 0"
    by (simp_all add: wgl_started_fields)
  have b: "\<not> stopped s_demo" "videoWidth s_demo = 0 \<or> videoHeight s_demo = 0"
    by (simp_all add: s_demo_fields)
  have k: "hexColorToRGBPct ''#11ff05'' = (Num (17 / 255), Num 1, Num (5 / 255))"
    using hex6_value [of "CHR ''1''" "CHR ''1''" "CHR ''f''" "CHR ''f''" "CHR ''0''" "CHR ''5''"]
    by (simp add: is_hex_digit_def digit_value_def)
  have c: "keycolor (getConfig ()) = (Num (17 / 255), Num 1, Num (5 / 255))"
    "LiveTweakableParams.similarity (getConfig ()) = Num 0.4"
    "LiveTweakableParams.smoothness (getConfig ()) = Num 0.08"
    "LiveTweakableParams.spill (getConfig ()) = Num 0.1"
    by (simp_all add: getConfig_def config_of_def defaultValues_def k)
  from zero_size_cycle_draws [OF a, of getConfig] zero_size_cycle_draws [OF b, of getConfig]
  show ?thesis
    by (simp add: wgl_started_fields s_demo_fields c next_task_def)
qed

end
